theory Spec2Isabelle
  imports Main "HOL-Library.Sublist"
begin

section \<open>Go values used by the driver\<close>

text \<open>
  A Go \<open>string\<close> and a \<open>[]byte\<close> are byte sequences: \<open>char list\<close>.  A
  \<open>map[string]string\<close> is a partial map; indexing a missing key gives the zero
  value, the empty string.
\<close>

type_synonym bytes = "char list"

type_synonym attrs = "string \<rightharpoonup> string"

definition lookup :: "attrs \<Rightarrow> string \<Rightarrow> string" where
  "lookup attr k = (case attr k of None \<Rightarrow> [] | Some v \<Rightarrow> v)"

text \<open>\<open>strings.Contains\<close>, \<open>strings.Join\<close> and \<open>strings.Split\<close> (non-empty separator).\<close>

fun Contains :: "string \<Rightarrow> string \<Rightarrow> bool" where
  "Contains [] substr = (substr = [])"
| "Contains (c # s) substr = (prefix substr (c # s) \<or> Contains s substr)"

fun Join :: "string list \<Rightarrow> string \<Rightarrow> string" where
  "Join [] sep = []"
| "Join [a] sep = a"
| "Join (a # b # rest) sep = a @ sep @ Join (b # rest) sep"

text \<open>
  \<open>Split s sep\<close> cuts \<open>s\<close> at every occurrence of \<open>sep\<close>, scanning from the left;
  \<open>cur\<close> holds the bytes of the piece being read, last byte first.  A string without
  the separator comes back as the single piece \<open>[s]\<close>.
\<close>

function SplitFrom :: "string \<Rightarrow> string \<Rightarrow> string \<Rightarrow> string list" where
  "SplitFrom cur [] sep = [rev cur]"
| "SplitFrom cur (c # s) sep =
     (if sep \<noteq> [] \<and> prefix sep (c # s)
      then rev cur # SplitFrom [] (drop (length sep) (c # s)) sep
      else SplitFrom (c # cur) s sep)"
  by pat_completeness auto
termination
  by (relation "measure (\<lambda>(cur, s, sep). length s)") auto

definition Split :: "string \<Rightarrow> string \<Rightarrow> string list" where
  "Split s sep = SplitFrom [] s sep"

subsection \<open>Errors\<close>

text \<open>
  An \<open>error\<close> value is one made by \<open>errors.New\<close>/\<open>fmt.Errorf\<close>, a gRPC status made
  by \<open>status.Error\<close>, or an error handed back by a library, which the code only
  classifies (\<open>k8sErrors.IsNotFound\<close>, \<open>os.IsExist\<close>, \<open>os.IsNotExist\<close>) and prints.
  \<open>Panic\<close> stands for a run-time panic of the Go program.
\<close>

datatype codes = InvalidArgument | Internal | Unimplemented

datatype errclass = NotFound | Exist | NotExist | Other

datatype error =
    New string
  | StatusError codes string
  | Lib errclass string
  | Panic string

fun codeName :: "codes \<Rightarrow> string" where
  "codeName InvalidArgument = ''InvalidArgument''"
| "codeName Internal = ''Internal''"
| "codeName Unimplemented = ''Unimplemented''"

fun Error :: "error \<Rightarrow> string" where
  "Error (New m) = m"
| "Error (StatusError c m) = ''rpc error: code = '' @ codeName c @ '' desc = '' @ m"
| "Error (Lib k m) = m"
| "Error (Panic m) = m"

fun IsNotFound :: "error \<Rightarrow> bool" where
  "IsNotFound (Lib NotFound m) = True"
| "IsNotFound e = False"

fun IsExist :: "error \<Rightarrow> bool" where
  "IsExist (Lib Exist m) = True"
| "IsExist e = False"

fun IsNotExist :: "error \<Rightarrow> bool" where
  "IsNotExist (Lib NotExist m) = True"
| "IsNotExist e = False"

section \<open>Attribute keys (pkg/apis/v1alpha1)\<close>

text \<open>
  The key constants of package \<open>csiapi\<close> are declared outside the files at hand, so
  every function takes them as the parameter \<open>K\<close>.
\<close>

record Keys =
  IssuerNameKey :: string
  IssuerKindKey :: string
  IssuerGroupKey :: string
  CommonNameKey :: string
  DNSNamesKey :: string
  IPSANsKey :: string
  URISANsKey :: string
  DurationKey :: string
  IsCAKey :: string
  CertFileKey :: string
  KeyFileKey :: string
  RenewBeforeKey :: string
  DisableAutoRenewKey :: string
  ReusePrivateKey :: string
  CSIPodNameKey :: string
  CSIPodNamespaceKey :: string
  CSIPodUIDKey :: string
  CSIEphemeralKey :: string
  MetaDataFileName :: string

section \<open>pkg/apis/validation\<close>

text \<open>
  \<open>time.ParseDuration\<close> belongs to the Go library; it is the parameter \<open>pd\<close>,
  giving the duration in nanoseconds or the library's error.
\<close>

type_synonym parseDuration = "string \<Rightarrow> error + int"

definition filepathBreakout :: "string \<Rightarrow> string \<Rightarrow> string list \<Rightarrow> string list" where
  "filepathBreakout s k errs =
     (if Contains s ''..''
      then errs @ [k @ '' filepaths may not contain '' @ [CHR 0x27] @ ''..'' @ [CHR 0x27]]
      else errs)"

definition durationParse :: "parseDuration \<Rightarrow> string \<Rightarrow> string \<Rightarrow> string list \<Rightarrow> string list" where
  "durationParse pd s k errs =
     (if length s = 0 then errs
      else case pd s of
             Inl err \<Rightarrow> errs @ [k @ '' must be a valid duration string: '' @ Error err]
           | Inr d \<Rightarrow> errs)"

definition boolValue :: "string \<Rightarrow> string \<Rightarrow> string list \<Rightarrow> string list" where
  "boolValue s k errs =
     (if length s = 0 then errs
      else if s \<noteq> ''false'' \<and> s \<noteq> ''true''
      then errs @ [k @ '' may only be set to 'true' for 'false'' @ [CHR 0x27]]
      else errs)"

definition ValidateAttributes :: "Keys \<Rightarrow> parseDuration \<Rightarrow> attrs \<Rightarrow> error option" where
  "ValidateAttributes K pd attr =
     (let errs = [];
          errs = (if length (lookup attr (IssuerNameKey K)) = 0
                  then errs @ [IssuerNameKey K @ '' field required''] else errs);
          errs = boolValue (lookup attr (IsCAKey K)) (IsCAKey K) errs;
          errs = durationParse pd (lookup attr (DurationKey K)) (DurationKey K) errs;
          errs = filepathBreakout (lookup attr (CertFileKey K)) (CertFileKey K) errs;
          errs = filepathBreakout (lookup attr (KeyFileKey K)) (KeyFileKey K) errs;
          errs = durationParse pd (lookup attr (RenewBeforeKey K)) (RenewBeforeKey K) errs;
          errs = boolValue (lookup attr (DisableAutoRenewKey K)) (DisableAutoRenewKey K) errs;
          errs = boolValue (lookup attr (ReusePrivateKey K)) (ReusePrivateKey K) errs
      in if length errs > 0 then Some (New (Join errs '', '')) else None)"

text \<open>The list \<open>errs\<close> of \<open>ValidateAttributes\<close> just before its final test, written as
  the nest of the eight steps that build it.\<close>

definition validationErrs :: "Keys \<Rightarrow> parseDuration \<Rightarrow> attrs \<Rightarrow> string list" where
  "validationErrs K pd attr =
     boolValue (lookup attr (ReusePrivateKey K)) (ReusePrivateKey K)
      (boolValue (lookup attr (DisableAutoRenewKey K)) (DisableAutoRenewKey K)
        (durationParse pd (lookup attr (RenewBeforeKey K)) (RenewBeforeKey K)
          (filepathBreakout (lookup attr (KeyFileKey K)) (KeyFileKey K)
            (filepathBreakout (lookup attr (CertFileKey K)) (CertFileKey K)
              (durationParse pd (lookup attr (DurationKey K)) (DurationKey K)
                (boolValue (lookup attr (IsCAKey K)) (IsCAKey K)
                  (if length (lookup attr (IssuerNameKey K)) = 0
                   then [] @ [IssuerNameKey K @ '' field required''] else [])))))))"


text \<open>
  The specification's wording for the path rule, a parent-directory traversal segment:
  one of the pieces of the path between slashes is \<open>..\<close>.
\<close>

definition parentDirSegment :: "string \<Rightarrow> bool" where
  "parentDirSegment s = (''..'' \<in> set (Split s ''/''))"

text \<open>
  Concrete parameters for evaluating the functions: keys under the driver's and
  Kubernetes' prefixes (the pod and ephemeral keys are those spelled out in the
  node server's test), and a duration parser that knows one duration.
\<close>

definition sampleKeys :: Keys where
  "sampleKeys = \<lparr>
     IssuerNameKey = ''csi.cert-manager.io/issuer-name'',
     IssuerKindKey = ''csi.cert-manager.io/issuer-kind'',
     IssuerGroupKey = ''csi.cert-manager.io/issuer-group'',
     CommonNameKey = ''csi.cert-manager.io/common-name'',
     DNSNamesKey = ''csi.cert-manager.io/dns-names'',
     IPSANsKey = ''csi.cert-manager.io/ip-sans'',
     URISANsKey = ''csi.cert-manager.io/uri-sans'',
     DurationKey = ''csi.cert-manager.io/duration'',
     IsCAKey = ''csi.cert-manager.io/is-ca'',
     CertFileKey = ''csi.cert-manager.io/certificate-file'',
     KeyFileKey = ''csi.cert-manager.io/privatekey-file'',
     RenewBeforeKey = ''csi.cert-manager.io/renew-before'',
     DisableAutoRenewKey = ''csi.cert-manager.io/disable-auto-renew'',
     ReusePrivateKey = ''csi.cert-manager.io/reuse-private-key'',
     CSIPodNameKey = ''csi.storage.k8s.io/pod.name'',
     CSIPodNamespaceKey = ''csi.storage.k8s.io/pod.namespace'',
     CSIPodUIDKey = ''csi.storage.k8s.io/pod.uid'',
     CSIEphemeralKey = ''csi.storage.k8s.io/ephemeral'',
     MetaDataFileName = ''metadata.json'' \<rparr>"

definition samplePD :: parseDuration where
  "samplePD s = (if s = ''1h'' then Inr 3600000000000
                 else Inl (New (''time: invalid duration '' @ s)))"


section \<open>Objects of the driver and of the cert-manager API\<close>

text \<open>\<open>csiapi.MetaData\<close>, the volume record.\<close>

record MetaData =
  ID :: string
  Name :: string
  Size :: int
  Path :: string
  TargetPath :: string
  Attributes :: attrs

text \<open>\<open>util.KeyBundle\<close>; keys are opaque byte strings, algorithms their Go enum numbers.\<close>

record KeyBundle =
  PEM :: bytes
  PrivateKey :: bytes
  SignatureAlgorithm :: nat
  PublicKeyAlgorithm :: nat

text \<open>\<open>x509.CertificateRequest\<close>, the fields the driver sets.\<close>

record x509CertificateRequest =
  Subject_CommonName :: string
  DNSNames :: "string list"
  IPAddresses :: "bytes list"
  URIs :: "string list"
  PublicKey :: bytes
  csr_PublicKeyAlgorithm :: nat
  csr_SignatureAlgorithm :: nat

text \<open>\<open>x509.Certificate\<close>: the driver reads the expiry only.\<close>

record Certificate =
  NotAfter :: int

text \<open>\<open>metav1.OwnerReference\<close>, \<open>metav1.ObjectMeta\<close>, \<open>cmmeta.ObjectReference\<close>.\<close>

record OwnerReference =
  APIVersion :: string
  BlockOwnerDeletion :: "bool option"
  Controller :: "bool option"
  Kind :: string
  Owner_Name :: string
  UID :: string

record ObjectMeta =
  Meta_Name :: string
  Namespace :: string
  OwnerReferences :: "OwnerReference list"

record ObjectReference =
  Ref_Name :: string
  Ref_Kind :: string
  Ref_Group :: string

text \<open>\<open>cmapi.CertificateRequest\<close> with its spec, status and conditions.\<close>

record CertificateRequestSpec =
  CSRPEM :: bytes
  IsCA :: bool
  Duration :: "int option"
  IssuerRef :: ObjectReference

record CertificateRequestCondition =
  Type :: string
  Cond_Status :: string
  Reason :: string
  Message :: string

record CertificateRequestStatus =
  Conditions :: "CertificateRequestCondition list"
  Certificate_bytes :: bytes
  CA :: bytes

record CertificateRequest =
  Meta :: ObjectMeta
  Spec :: CertificateRequestSpec
  Status :: CertificateRequestStatus

definition CertificateRequestConditionReady :: string where
  "CertificateRequestConditionReady = ''Ready''"

definition ConditionTrue :: string where
  "ConditionTrue = ''True''"

definition noStatus :: CertificateRequestStatus where
  "noStatus = \<lparr> Conditions = [], Certificate_bytes = [], CA = [] \<rparr>"

section \<open>The world outside the driver\<close>

text \<open>
  Every call that leaves the process is recorded as an event, in order.  What such a
  call answers is not decided by the driver: it is given by the record \<open>W\<close>, as a
  function of the events so far and of the call's arguments.  A function of the
  driver that makes such calls takes the events so far and returns its result with
  the events extended.
\<close>

datatype event =
    EGet string string
  | EDelete string string
  | ECreate string CertificateRequest
  | ESign x509CertificateRequest bytes
  | ENewRSAKey
  | EIoutilWriteFile string bytes nat
  | EUtilWriteFile string bytes nat
  | EMkdirAll string nat
  | ERemoveAll string
  | EWriteMetaDataFile MetaData
  | EReadMetaDataFile string
  | EIsLikelyMountPoint string
  | EMount string string "string list"
  | EUnmount string
  | EWatchCert MetaData int
  | EKillWatcher string
  | EWebhookCreate MetaData
  | EWebhookDestroy MetaData

type_synonym trace = "event list"

record World =
  Get_answer :: "trace \<Rightarrow> string \<Rightarrow> string \<Rightarrow> error + CertificateRequest"
  Create_answer :: "trace \<Rightarrow> string \<Rightarrow> CertificateRequest \<Rightarrow> error + CertificateRequest"
  Delete_answer :: "trace \<Rightarrow> string \<Rightarrow> string \<Rightarrow> error option"
  Sign_answer :: "trace \<Rightarrow> x509CertificateRequest \<Rightarrow> bytes \<Rightarrow> error + bytes"
  NewRSAKey_answer :: "trace \<Rightarrow> error + KeyBundle"
  ioutil_WriteFile_answer :: "trace \<Rightarrow> string \<Rightarrow> bytes \<Rightarrow> nat \<Rightarrow> error option"
  util_WriteFile_answer :: "trace \<Rightarrow> string \<Rightarrow> bytes \<Rightarrow> nat \<Rightarrow> error option"
  MkdirAll_answer :: "trace \<Rightarrow> string \<Rightarrow> nat \<Rightarrow> error option"
  RemoveAll_answer :: "trace \<Rightarrow> string \<Rightarrow> error option"
  WriteMetaDataFile_answer :: "trace \<Rightarrow> MetaData \<Rightarrow> error option"
  ReadMetaDataFile_answer :: "trace \<Rightarrow> string \<Rightarrow> MetaData option \<times> error option"
  IsLikelyMountPoint_answer :: "trace \<Rightarrow> string \<Rightarrow> bool \<times> error option"
  Mount_answer :: "trace \<Rightarrow> string \<Rightarrow> string \<Rightarrow> string list \<Rightarrow> error option"
  Unmount_answer :: "trace \<Rightarrow> string \<Rightarrow> error option"
  WatchCert_answer :: "trace \<Rightarrow> MetaData \<Rightarrow> int \<Rightarrow> error option"

text \<open>
  Functions of packages \<open>util\<close>, \<open>defaults\<close> and of the Go and Kubernetes libraries
  that compute a value from their arguments, and are not among the files at hand: the
  record \<open>L\<close>.
\<close>

record Lib =
  time_ParseDuration :: parseDuration
  strings_ToLower :: "string \<Rightarrow> string"
  filepath_Join :: "string list \<Rightarrow> string"
  json_Marshal :: "MetaData \<Rightarrow> error + bytes"
  pem_EncodeToMemory :: "string \<Rightarrow> bytes \<Rightarrow> bytes"
  Public :: "bytes \<Rightarrow> bytes"
  pki_DecodeX509CertificateBytes :: "bytes \<Rightarrow> error + Certificate"
  cmapi_DefaultCertificateDuration :: int
  defaults_SetDefaultAttributes :: "attrs \<Rightarrow> error + attrs"
  util_ParseURIs :: "string \<Rightarrow> error + string list"
  util_ParseIPAddresses :: "string \<Rightarrow> bytes list"
  util_CertificateRequestMatchesSpec :: "CertificateRequest \<Rightarrow> attrs \<Rightarrow> error option"
  util_BuildVolumeName :: "string \<Rightarrow> string \<Rightarrow> string"
  util_MountPath :: "MetaData \<Rightarrow> string"
  util_CertPath :: "MetaData \<Rightarrow> string"
  util_CAPath :: "MetaData \<Rightarrow> string"
  util_KeyPath :: "MetaData \<Rightarrow> string"

subsection \<open>The calls, each with its event\<close>

definition cmClient_Get ::
  "World \<Rightarrow> string \<Rightarrow> string \<Rightarrow> trace \<Rightarrow> (error + CertificateRequest) \<times> trace" where
  "cmClient_Get W ns name h = (Get_answer W h ns name, h @ [EGet ns name])"

definition cmClient_Create ::
  "World \<Rightarrow> string \<Rightarrow> CertificateRequest \<Rightarrow> trace \<Rightarrow> (error + CertificateRequest) \<times> trace" where
  "cmClient_Create W ns cr h = (Create_answer W h ns cr, h @ [ECreate ns cr])"

definition cmClient_Delete ::
  "World \<Rightarrow> string \<Rightarrow> string \<Rightarrow> trace \<Rightarrow> error option \<times> trace" where
  "cmClient_Delete W ns name h = (Delete_answer W h ns name, h @ [EDelete ns name])"

definition x509_CreateCertificateRequest ::
  "World \<Rightarrow> x509CertificateRequest \<Rightarrow> bytes \<Rightarrow> trace \<Rightarrow> (error + bytes) \<times> trace" where
  "x509_CreateCertificateRequest W csr key h = (Sign_answer W h csr key, h @ [ESign csr key])"

definition ioutil_WriteFile ::
  "World \<Rightarrow> string \<Rightarrow> bytes \<Rightarrow> nat \<Rightarrow> trace \<Rightarrow> error option \<times> trace" where
  "ioutil_WriteFile W p b perm h =
     (ioutil_WriteFile_answer W h p b perm, h @ [EIoutilWriteFile p b perm])"

definition util_WriteFile ::
  "World \<Rightarrow> string \<Rightarrow> bytes \<Rightarrow> nat \<Rightarrow> trace \<Rightarrow> error option \<times> trace" where
  "util_WriteFile W p b perm h =
     (util_WriteFile_answer W h p b perm, h @ [EUtilWriteFile p b perm])"

section \<open>pkg/util: certificate request helpers\<close>

definition EncodeCSR ::
  "Lib \<Rightarrow> World \<Rightarrow> x509CertificateRequest \<Rightarrow> bytes \<Rightarrow> trace \<Rightarrow> (error + bytes) \<times> trace" where
  "EncodeCSR L W csr key h =
     (case x509_CreateCertificateRequest W csr key h of
        (Inl err, h1) \<Rightarrow> (Inl (New (''error creating x509 certificate: '' @ Error err)), h1)
      | (Inr derBytes, h1) \<Rightarrow>
          (Inr (pem_EncodeToMemory L ''CERTIFICATE REQUEST'' derBytes), h1))"

definition CertificateRequestReady :: "CertificateRequest \<Rightarrow> bool" where
  "CertificateRequestReady cr =
     (let readyType = CertificateRequestConditionReady;
          readyStatus = ConditionTrue;
          existingConditions = Conditions (Status cr)
      in list_ex (\<lambda>cond. readyType = Type cond \<and> readyStatus = Cond_Status cond)
           existingConditions)"

definition CertificateRequestFailed :: "CertificateRequest \<Rightarrow> string \<times> bool" where
  "CertificateRequestFailed cr =
     (let readyType = CertificateRequestConditionReady
      in case find (\<lambda>con. readyType = Type con \<and> Reason con = ''Failed'')
                (Conditions (Status cr)) of
           Some con \<Rightarrow> (Message con, True)
         | None \<Rightarrow> ([], False))"

section \<open>k8s.io/apimachinery/pkg/util/wait\<close>

text \<open>
  \<open>wait.PollImmediate interval timeout condition\<close> in logical time: the condition is
  tried at once and then after every interval, as long as the time waited does not
  exceed the timeout; the first error or \<open>true\<close> of the condition ends the polling, and
  when the tries are used up the result is \<open>wait.ErrWaitTimeout\<close>.  The condition is a Go
  closure: it works on a state \<open>'s\<close>, the variables it captures and the trace.
\<close>

definition ErrWaitTimeout :: error where
  "ErrWaitTimeout = New ''timed out waiting for the condition''"

fun poll :: "nat \<Rightarrow> ('s \<Rightarrow> (error + bool) \<times> 's) \<Rightarrow> 's \<Rightarrow> error option \<times> 's" where
  "poll 0 condition s = (Some ErrWaitTimeout, s)"
| "poll (Suc n) condition s =
     (case condition s of
        (Inl err, s1) \<Rightarrow> (Some err, s1)
      | (Inr True, s1) \<Rightarrow> (None, s1)
      | (Inr False, s1) \<Rightarrow> poll n condition s1)"

definition PollImmediate ::
  "int \<Rightarrow> int \<Rightarrow> ('s \<Rightarrow> (error + bool) \<times> 's) \<Rightarrow> 's \<Rightarrow> error option \<times> 's" where
  "PollImmediate interval timeout condition s =
     poll (Suc (nat (timeout div interval))) condition s"

definition Second :: int where
  "Second = 1000000000"

section \<open>pkg/certmanager\<close>

definition checkExistingCertificateRequest ::
  "Keys \<Rightarrow> Lib \<Rightarrow> World \<Rightarrow> MetaData \<Rightarrow> trace \<Rightarrow> (error + bool) \<times> trace" where
  "checkExistingCertificateRequest K L W vol h =
     (let namespace = lookup (Attributes vol) (CSIPodNamespaceKey K)
      in case cmClient_Get W namespace (ID vol) h of
           (Inl err, h1) \<Rightarrow>
             if \<not> IsNotFound err then (Inl err, h1)
             else (Inr False, h1)
         | (Inr cr, h1) \<Rightarrow>
             (case util_CertificateRequestMatchesSpec L cr (Attributes vol) of
                Some err \<Rightarrow>
                  (case cmClient_Delete W namespace (ID vol) h1 of
                     (Some err, h2) \<Rightarrow> (Inl err, h2)
                   | (None, h2) \<Rightarrow> (Inr False, h2))
              | None \<Rightarrow> (Inr True, h1)))"

text \<open>
  The condition polled by \<open>waitForCertificateRequestReady\<close>; the captured variable
  \<open>cr\<close> is the first component of its state.  A failed \<open>Get\<close> leaves no object in it.
\<close>

definition readyCondition ::
  "World \<Rightarrow> string \<Rightarrow> string \<Rightarrow> CertificateRequest option \<times> trace \<Rightarrow>
     (error + bool) \<times> CertificateRequest option \<times> trace" where
  "readyCondition W name ns s =
     (case cmClient_Get W ns name (snd s) of
        (Inl err, h1) \<Rightarrow>
          (Inl (New (''error getting CertificateRequest '' @ name @ '': '' @ Error err)),
           None, h1)
      | (Inr cr, h1) \<Rightarrow>
          (case CertificateRequestFailed cr of
             (reason, failed) \<Rightarrow>
               if failed
               then (Inl (New (''certificate request marked as failed: '' @ reason)),
                     Some cr, h1)
               else if \<not> CertificateRequestReady cr then (Inr False, Some cr, h1)
               else (Inr True, Some cr, h1)))"

definition waitForCertificateRequestReady ::
  "World \<Rightarrow> string \<Rightarrow> string \<Rightarrow> int \<Rightarrow> trace \<Rightarrow>
     (CertificateRequest option \<times> error option) \<times> trace" where
  "waitForCertificateRequestReady W name ns timeout h =
     (case PollImmediate Second timeout (readyCondition W name ns) (None, h) of
        (Some err, cr, h1) \<Rightarrow> ((cr, Some err), h1)
      | (None, cr, h1) \<Rightarrow> ((cr, None), h1))"

text \<open>
  The body of \<open>if !ok { ... }\<close> in \<open>CreateNewCertificate\<close>: build the signing request
  and the \<open>CertificateRequest\<close> from the attributes, and create it.
\<close>

definition newCertificateRequest ::
  "Keys \<Rightarrow> Lib \<Rightarrow> World \<Rightarrow> MetaData \<Rightarrow> KeyBundle \<Rightarrow> trace \<Rightarrow> error option \<times> trace" where
  "newCertificateRequest K L W vol keyBundle h =
     (let attr = Attributes vol;
          namespace = lookup attr (CSIPodNamespaceKey K)
      in case util_ParseURIs L (lookup attr (URISANsKey K)) of
           Inl err \<Rightarrow> (Some err, h)
         | Inr uris \<Rightarrow>
      (let ips = util_ParseIPAddresses L (lookup attr (IPSANsKey K));
           dnsNames = Split (lookup attr (DNSNamesKey K)) '','';
           commonName = lookup attr (CommonNameKey K)
       in case (case attr (DurationKey K) of
                  None \<Rightarrow> Inr (cmapi_DefaultCertificateDuration L)
                | Some durStr \<Rightarrow> time_ParseDuration L durStr) of
            Inl err \<Rightarrow> (Some err, h)
          | Inr duration \<Rightarrow>
      (let isCA = (case attr (IsCAKey K) of
                     None \<Rightarrow> False
                   | Some isCAStr \<Rightarrow>
                       if strings_ToLower L isCAStr = ''true'' then True
                       else if strings_ToLower L isCAStr = ''false'' then False
                       else False);
           csr = \<lparr> Subject_CommonName = commonName,
                   DNSNames = dnsNames,
                   IPAddresses = ips,
                   URIs = uris,
                   PublicKey = Public L (PrivateKey keyBundle),
                   csr_PublicKeyAlgorithm = PublicKeyAlgorithm keyBundle,
                   csr_SignatureAlgorithm = SignatureAlgorithm keyBundle \<rparr>
       in case EncodeCSR L W csr (PrivateKey keyBundle) h of
            (Inl err, h1) \<Rightarrow> (Some err, h1)
          | (Inr csrPEM, h1) \<Rightarrow>
      (let cr = \<lparr> Meta = \<lparr> Meta_Name = ID vol,
                            Namespace = namespace,
                            OwnerReferences =
                              [\<lparr> APIVersion = ''core/v1'',
                                 BlockOwnerDeletion = Some True,
                                 Controller = Some False,
                                 Kind = ''Pod'',
                                 Owner_Name = lookup (Attributes vol) (CSIPodNamespaceKey K),
                                 UID = lookup (Attributes vol) (CSIPodUIDKey K) \<rparr>] \<rparr>,
                  Spec = \<lparr> CSRPEM = csrPEM,
                            IsCA = isCA,
                            Duration = Some duration,
                            IssuerRef = \<lparr> Ref_Name = lookup attr (IssuerNameKey K),
                                          Ref_Kind = lookup attr (IssuerKindKey K),
                                          Ref_Group = lookup attr (IssuerGroupKey K) \<rparr> \<rparr>,
                  Status = noStatus \<rparr>
       in case cmClient_Create W namespace cr h1 of
            (Inl err, h2) \<Rightarrow> (Some err, h2)
          | (Inr cr, h2) \<Rightarrow> (None, h2)))))"

text \<open>File mode \<open>0600\<close> is 384.\<close>

definition CreateNewCertificate ::
  "Keys \<Rightarrow> Lib \<Rightarrow> World \<Rightarrow> MetaData \<Rightarrow> KeyBundle \<Rightarrow> trace \<Rightarrow> (error + Certificate) \<times> trace" where
  "CreateNewCertificate K L W vol keyBundle h =
     (let attr = Attributes vol;
          namespace = lookup attr (CSIPodNamespaceKey K)
      in case checkExistingCertificateRequest K L W vol h of
           (Inl err, h1) \<Rightarrow> (Inl err, h1)
         | (Inr ok, h1) \<Rightarrow>
      (case (if \<not> ok then newCertificateRequest K L W vol keyBundle h1 else (None, h1)) of
           (Some err, h2) \<Rightarrow> (Inl err, h2)
         | (None, h2) \<Rightarrow>
      (case waitForCertificateRequestReady W (ID vol) namespace (Second * 30) h2 of
           ((cr, Some err), h3) \<Rightarrow> (Inl err, h3)
         | ((cr, None), h3) \<Rightarrow>
      (case json_Marshal L vol of
           Inl err \<Rightarrow> (Inl err, h3)
         | Inr metaDataBytes \<Rightarrow>
      (let metaPath = filepath_Join L [Path vol, MetaDataFileName K]
       in case ioutil_WriteFile W metaPath metaDataBytes 384 h3 of
            (Some err, h4) \<Rightarrow> (Inl err, h4)
          | (None, h4) \<Rightarrow>
      (case cr of
           None \<Rightarrow> (Inl (Panic ''invalid memory address or nil pointer dereference''), h4)
         | Some cr \<Rightarrow>
      (let certPath = util_CertPath L vol
       in case util_WriteFile W certPath (Certificate_bytes (Status cr)) 384 h4 of
            (Some err, h5) \<Rightarrow> (Inl err, h5)
          | (None, h5) \<Rightarrow>
      (case (if length (CA (Status cr)) > 0
             then util_WriteFile W (util_CAPath L vol) (CA (Status cr)) 384 h5
             else (None, h5)) of
            (Some err, h6) \<Rightarrow> (Inl err, h6)
          | (None, h6) \<Rightarrow>
      (case pki_DecodeX509CertificateBytes L (Certificate_bytes (Status cr)) of
            Inl err \<Rightarrow> (Inl err, h6)
          | Inr cert \<Rightarrow>
      (let keyPath = util_KeyPath L vol
       in case util_WriteFile W keyPath (PEM keyBundle) 384 h6 of
            (Some err, h7) \<Rightarrow>
              (Inl (New (''faild to write key data to file: '' @ Error err)), h7)
          | (None, h7) \<Rightarrow> (Inr cert, h7)))))))))))"

text \<open>
  What the \<open>i\<close>-th poll of a volume's \<open>CertificateRequest\<close> is answered (the first poll
  is number 0) when polling starts after the events \<open>h\<close>, and the answers on which the
  polling goes on: an object that is neither marked as failed nor ready.
\<close>

definition pollAnswer :: "World \<Rightarrow> string \<Rightarrow> string \<Rightarrow> trace \<Rightarrow> nat \<Rightarrow> error + CertificateRequest" where
  "pollAnswer W name ns h i = Get_answer W (h @ replicate i (EGet ns name)) ns name"

definition notYetReady :: "World \<Rightarrow> string \<Rightarrow> string \<Rightarrow> trace \<Rightarrow> nat \<Rightarrow> bool" where
  "notYetReady W name ns h i =
     (case pollAnswer W name ns h i of
        Inl err \<Rightarrow> False
      | Inr cr \<Rightarrow> \<not> snd (CertificateRequestFailed cr) \<and> \<not> CertificateRequestReady cr)"

section \<open>Reading a trace\<close>

text \<open>
  The objects created and the names deleted at the authority, the signing requests
  built, and the file writes, in the order of the events.
\<close>

fun created :: "trace \<Rightarrow> CertificateRequest list" where
  "created [] = []"
| "created (ECreate ns cr # es) = cr # created es"
| "created (e # es) = created es"

fun deleted :: "trace \<Rightarrow> (string \<times> string) list" where
  "deleted [] = []"
| "deleted (EDelete ns name # es) = (ns, name) # deleted es"
| "deleted (e # es) = deleted es"

fun signed :: "trace \<Rightarrow> x509CertificateRequest list" where
  "signed [] = []"
| "signed (ESign csr key # es) = csr # signed es"
| "signed (e # es) = signed es"

fun isWrite :: "event \<Rightarrow> bool" where
  "isWrite (EIoutilWriteFile p b perm) = True"
| "isWrite (EUtilWriteFile p b perm) = True"
| "isWrite (EWriteMetaDataFile vol) = True"
| "isWrite e = False"

fun isGet :: "event \<Rightarrow> bool" where
  "isGet (EGet ns name) = True"
| "isGet e = False"

definition written :: "trace \<Rightarrow> event list" where
  "written h = filter isWrite h"

section \<open>pkg/driver: the node server\<close>

subsection \<open>Requests and responses of the CSI node service\<close>

text \<open>
  A volume capability has at most one access type; \<open>GetBlock\<close> is non-nil exactly for
  the block access type.
\<close>

datatype AccessType = NoAccessType | BlockAccess | MountAccess

record VolumeCapability =
  AccessType :: AccessType

definition GetBlock :: "VolumeCapability \<Rightarrow> unit option" where
  "GetBlock c = (if AccessType c = BlockAccess then Some () else None)"

record NodePublishVolumeRequest =
  VolumeId :: string
  Req_TargetPath :: string
  VolumeContext :: attrs
  Req_VolumeCapability :: "VolumeCapability option"

record NodeUnpublishVolumeRequest =
  Unpub_VolumeId :: string
  Unpub_TargetPath :: string

datatype NodePublishVolumeResponse = NodePublishVolumeResponse

datatype NodeUnpublishVolumeResponse = NodeUnpublishVolumeResponse

text \<open>Of the node server's fields the functions below read \<open>dataRoot\<close> only.\<close>

record NodeServer =
  dataRoot :: string

definition kib :: int where
  "kib = 1024"

definition maxStorageCapacity :: int where
  "maxStorageCapacity = 100 * kib"

subsection \<open>Calls to the host, the renewer and the webhook, each with its event\<close>

definition os_MkdirAll :: "World \<Rightarrow> string \<Rightarrow> nat \<Rightarrow> trace \<Rightarrow> error option \<times> trace" where
  "os_MkdirAll W p perm h = (MkdirAll_answer W h p perm, h @ [EMkdirAll p perm])"

definition os_RemoveAll :: "World \<Rightarrow> string \<Rightarrow> trace \<Rightarrow> error option \<times> trace" where
  "os_RemoveAll W p h = (RemoveAll_answer W h p, h @ [ERemoveAll p])"

definition util_NewRSAKey :: "World \<Rightarrow> trace \<Rightarrow> (error + KeyBundle) \<times> trace" where
  "util_NewRSAKey W h = (NewRSAKey_answer W h, h @ [ENewRSAKey])"

definition util_WriteMetaDataFile :: "World \<Rightarrow> MetaData \<Rightarrow> trace \<Rightarrow> error option \<times> trace" where
  "util_WriteMetaDataFile W vol h = (WriteMetaDataFile_answer W h vol, h @ [EWriteMetaDataFile vol])"

definition util_ReadMetaDataFile ::
  "World \<Rightarrow> string \<Rightarrow> trace \<Rightarrow> (MetaData option \<times> error option) \<times> trace" where
  "util_ReadMetaDataFile W p h = (ReadMetaDataFile_answer W h p, h @ [EReadMetaDataFile p])"

definition util_IsLikelyMountPoint ::
  "World \<Rightarrow> string \<Rightarrow> trace \<Rightarrow> (bool \<times> error option) \<times> trace" where
  "util_IsLikelyMountPoint W p h = (IsLikelyMountPoint_answer W h p, h @ [EIsLikelyMountPoint p])"

definition util_Mount ::
  "World \<Rightarrow> string \<Rightarrow> string \<Rightarrow> string list \<Rightarrow> trace \<Rightarrow> error option \<times> trace" where
  "util_Mount W src tgt opts h = (Mount_answer W h src tgt opts, h @ [EMount src tgt opts])"

definition util_Unmount :: "World \<Rightarrow> string \<Rightarrow> trace \<Rightarrow> error option \<times> trace" where
  "util_Unmount W p h = (Unmount_answer W h p, h @ [EUnmount p])"

definition renewer_WatchCert ::
  "World \<Rightarrow> MetaData \<Rightarrow> int \<Rightarrow> trace \<Rightarrow> error option \<times> trace" where
  "renewer_WatchCert W vol notAfter h = (WatchCert_answer W h vol notAfter, h @ [EWatchCert vol notAfter])"

definition renewer_KillWatcher :: "string \<Rightarrow> trace \<Rightarrow> trace" where
  "renewer_KillWatcher volID h = h @ [EKillWatcher volID]"

definition wh_Create :: "MetaData \<Rightarrow> trace \<Rightarrow> trace" where
  "wh_Create vol h = h @ [EWebhookCreate vol]"

definition wh_Destroy :: "MetaData \<Rightarrow> trace \<Rightarrow> trace" where
  "wh_Destroy vol h = h @ [EWebhookDestroy vol]"

subsection \<open>The node server's functions\<close>

definition validateVolumeAttributes :: "Keys \<Rightarrow> NodePublishVolumeRequest \<Rightarrow> error option" where
  "validateVolumeAttributes K req =
     (let errs = [];
          attr = VolumeContext req;
          ephemeralVolume = (lookup attr (CSIEphemeralKey K) = ''true'' \<or>
                             lookup attr (CSIEphemeralKey K) = []);
          errs = (if \<not> ephemeralVolume
                  then errs @ [''publishing a non-ephemeral volume mount is not supported'']
                  else errs);
          okN = (attr (CSIPodNameKey K) \<noteq> None);
          okNs = (attr (CSIPodNamespaceKey K) \<noteq> None);
          errs = (if \<not> okN \<or> \<not> okNs
                  then errs @ [''expecting both '' @ CSIPodNamespaceKey K @ '' and '' @
                               CSIPodNameKey K @ '' attributes to be set in context'']
                  else errs);
          errs = (case Req_VolumeCapability req of
                    None \<Rightarrow> errs @ [''volume capability missing'']
                  | Some c \<Rightarrow>
                      if GetBlock c \<noteq> None
                      then errs @ [''block access type not supported'']
                      else errs);
          errs = (if length (VolumeId req) = 0 then errs @ [''volume ID missing''] else errs);
          errs = (if length (Req_TargetPath req) = 0
                  then errs @ [''target path missing''] else errs)
      in if length errs > 0 then Some (New (Join errs '', '')) else None)"

text \<open>File mode \<open>0700\<close> is 448; the parameter \<open>vid\<close> is the source's \<open>id\<close>.\<close>

definition createVolume ::
  "Keys \<Rightarrow> Lib \<Rightarrow> World \<Rightarrow> NodeServer \<Rightarrow> string \<Rightarrow> string \<Rightarrow> attrs \<Rightarrow> trace \<Rightarrow>
     (error + MetaData) \<times> trace" where
  "createVolume K L W ns vid targetPath attr h =
     (let podName = lookup attr (CSIPodNameKey K);
          name = util_BuildVolumeName L podName vid;
          path = filepath_Join L [dataRoot ns, vid]
      in case os_MkdirAll W path 448 h of
           (Some err, h1) \<Rightarrow> (Inl err, h1)
         | (None, h1) \<Rightarrow>
             (Inr \<lparr> ID = vid, Name = name, Size = maxStorageCapacity, Path = path,
                    TargetPath = targetPath, Attributes = attr \<rparr>, h1))"

text \<open>
  A handler returns a response and an error, either of which may be nil.  When
  \<open>createVolume\<close> fails with an error that \<open>os.IsExist\<close> accepts, the handler goes on
  with a nil volume and panics where it first reads it.
\<close>

definition NodePublishVolume ::
  "Keys \<Rightarrow> Lib \<Rightarrow> World \<Rightarrow> NodeServer \<Rightarrow> NodePublishVolumeRequest \<Rightarrow> trace \<Rightarrow>
     (NodePublishVolumeResponse option \<times> error option) \<times> trace" where
  "NodePublishVolume K L W ns req h =
     (let attr = VolumeContext req;
          targetPath = Req_TargetPath req
      in case validateVolumeAttributes K req of
           Some err \<Rightarrow> ((None, Some (StatusError Internal (Error err))), h)
         | None \<Rightarrow>
      (case defaults_SetDefaultAttributes L attr of
           Inl err \<Rightarrow> ((None, Some (StatusError InvalidArgument (Error err))), h)
         | Inr attr \<Rightarrow>
      (case ValidateAttributes K (time_ParseDuration L) attr of
           Some err \<Rightarrow> ((None, Some (StatusError InvalidArgument (Error err))), h)
         | None \<Rightarrow>
      (let volID = VolumeId req
       in case createVolume K L W ns volID targetPath attr h of
            (Inl err, h1) \<Rightarrow>
              if \<not> IsExist err
              then ((None, Some (StatusError Internal (Error err))), h1)
              else ((None, Some (Panic ''invalid memory address or nil pointer dereference'')), h1)
          | (Inr vol, h1) \<Rightarrow>
      (case util_NewRSAKey W h1 of
            (Inl err, h2) \<Rightarrow> ((None, Some err), h2)
          | (Inr keyBundle, h2) \<Rightarrow>
      (case CreateNewCertificate K L W vol keyBundle h2 of
            (Inl err, h3) \<Rightarrow>
              ((None, Some (New (''failed to create new certificate: '' @ Error err))), h3)
          | (Inr cert, h3) \<Rightarrow>
      (case (if attr (DisableAutoRenewKey K) \<noteq> Some ''true''
             then renewer_WatchCert W vol (NotAfter cert) h3
             else (None, h3)) of
            (Some err, h4) \<Rightarrow>
              ((None, Some (New (''failed to watch file '' @ lookup attr (CSIPodNamespaceKey K) @
                  '':'' @ lookup attr (CSIPodNameKey K) @ '':'' @ ID vol @ '': '' @ Error err))),
               h4)
          | (None, h4) \<Rightarrow>
      (case util_WriteMetaDataFile W vol h4 of
            (Some err, h5) \<Rightarrow>
              ((None, Some (New (''failed to write metadata file: '' @ Error err))), h5)
          | (None, h5) \<Rightarrow>
      (let mountPath = util_MountPath L vol
       in case util_IsLikelyMountPoint W targetPath h5 of
            ((mntPoint, err), h6) \<Rightarrow>
      (case (if (case err of None \<Rightarrow> False | Some e \<Rightarrow> IsNotExist e)
             then (case os_MkdirAll W targetPath 448 h6 of
                     (Some err, h7) \<Rightarrow> (Inl err, h7)
                   | (None, h7) \<Rightarrow> (Inr False, h7))
             else (Inr mntPoint, h6)) of
            (Inl err, h7) \<Rightarrow>
              ((None, Some (StatusError Internal (''failed to create target path directory '' @
                  targetPath @ '': '' @ Error err))), h7)
          | (Inr mntPoint, h7) \<Rightarrow>
      (case os_MkdirAll W mountPath 448 h7 of
            (Some err, h8) \<Rightarrow>
              ((None, Some (StatusError Internal (''failed to create mount path directory '' @
                  mountPath @ '': '' @ Error err))), h8)
          | (None, h8) \<Rightarrow>
      if mntPoint then ((Some NodePublishVolumeResponse, None), h8)
      else
      (case util_Mount W mountPath targetPath [''ro''] h8 of
            (Some err, h9) \<Rightarrow>
              (case os_RemoveAll W (Path vol) h9 of
                 (rmErr, h10) \<Rightarrow>
                   (let err = (case rmErr of
                                 None \<Rightarrow> err
                               | Some rmErr \<Rightarrow>
                                   if \<not> IsNotExist rmErr
                                   then New (''failed to remove all from '' @ Path vol @ '': '' @
                                             Error err @ '','' @ Error rmErr)
                                   else err)
                    in ((None, Some (StatusError Internal (''failed to mount path '' @
                          mountPath @ '' -> '' @ targetPath @ '': '' @ Error err))), h10)))
          | (None, h9) \<Rightarrow>
              ((Some NodePublishVolumeResponse, None), wh_Create vol h9)))))))))))))"

definition NodeUnpublishVolume ::
  "Keys \<Rightarrow> Lib \<Rightarrow> World \<Rightarrow> NodeServer \<Rightarrow> NodeUnpublishVolumeRequest \<Rightarrow> trace \<Rightarrow>
     (NodeUnpublishVolumeResponse option \<times> error option) \<times> trace" where
  "NodeUnpublishVolume K L W ns req h =
     (let targetPath = Unpub_TargetPath req;
          volumeID = Unpub_VolumeId req
      in if length targetPath = 0
         then ((None, Some (StatusError InvalidArgument ''volume ID missing in request'')), h)
         else if length volumeID = 0
         then ((None, Some (StatusError InvalidArgument ''target path missing in request'')), h)
         else
      (let metaPath = filepath_Join L [dataRoot ns, volumeID, MetaDataFileName K]
       in case util_ReadMetaDataFile W metaPath h of
            ((metaData, err), h1) \<Rightarrow>
      (let h2 = renewer_KillWatcher volumeID h1
       in case util_Unmount W targetPath h2 of
            (Some err, h3) \<Rightarrow> ((None, None), h3)
          | (None, h3) \<Rightarrow>
      (let path = filepath_Join L [dataRoot ns, volumeID]
       in case os_RemoveAll W path h3 of
            (rmErr, h4) \<Rightarrow>
              (case (case rmErr of
                       None \<Rightarrow> None
                     | Some err \<Rightarrow> if \<not> IsNotExist err then Some err else None) of
                 Some err \<Rightarrow> ((None, Some err), h4)
               | None \<Rightarrow>
                   ((Some NodeUnpublishVolumeResponse, None),
                    (case metaData of None \<Rightarrow> h4 | Some m \<Rightarrow> wh_Destroy m h4)))))))"

subsection \<open>More readings of a trace\<close>




fun isRemoveAll :: "event \<Rightarrow> bool" where
  "isRemoveAll (ERemoveAll p) = True"
| "isRemoveAll e = False"

fun isWebhookDestroy :: "event \<Rightarrow> bool" where
  "isWebhookDestroy (EWebhookDestroy vol) = True"
| "isWebhookDestroy e = False"


section \<open>Concrete parameters for evaluation\<close>

text \<open>
  A library record and a volume to run the functions on.  The helper functions are
  simple stand-ins with the right types; only the theorems evaluated at concrete inputs
  use them.
\<close>

definition sampleLib :: Lib where
  "sampleLib = \<lparr>
     time_ParseDuration = samplePD,
     strings_ToLower = (\<lambda>s. s),
     filepath_Join = (\<lambda>ps. Join ps ''/''),
     json_Marshal = (\<lambda>vol. Inr (''{id:'' @ ID vol @ ''}'')),
     pem_EncodeToMemory = (\<lambda>t b. t @ '':'' @ b),
     Public = (\<lambda>k. ''pub-'' @ k),
     pki_DecodeX509CertificateBytes = (\<lambda>b. Inr \<lparr> NotAfter = 1000 \<rparr>),
     cmapi_DefaultCertificateDuration = 2160 * 3600 * 1000000000,
     defaults_SetDefaultAttributes = (\<lambda>attr. Inr attr),
     util_ParseURIs = (\<lambda>s. if s = [] then Inr []
                           else if s = ''%zz'' then Inl (New ''invalid URL escape %zz'')
                           else Inr (Split s '','')),
     util_ParseIPAddresses = (\<lambda>s. if s = [] then [] else Split s '',''),
     util_CertificateRequestMatchesSpec =
       (\<lambda>cr attr. if Ref_Name (IssuerRef (Spec cr)) = lookup attr (IssuerNameKey sampleKeys)
                   then None else Some (New ''issuer name does not match'')),
     util_BuildVolumeName = (\<lambda>pod id. ''cert-manager-csi-'' @ pod @ ''-'' @ id),
     util_MountPath = (\<lambda>vol. Path vol @ ''/data''),
     util_CertPath = (\<lambda>vol. Path vol @ ''/data/crt.pem''),
     util_CAPath = (\<lambda>vol. Path vol @ ''/data/ca.pem''),
     util_KeyPath = (\<lambda>vol. Path vol @ ''/data/key.pem'') \<rparr>"

definition sampleAttrs :: attrs where
  "sampleAttrs = [IssuerNameKey sampleKeys \<mapsto> ''ca-issuer'',
                  CSIPodNameKey sampleKeys \<mapsto> ''my-pod'',
                  CSIPodNamespaceKey sampleKeys \<mapsto> ''default'',
                  CSIPodUIDKey sampleKeys \<mapsto> ''uid-1'']"

definition sampleVol :: MetaData where
  "sampleVol = \<lparr> ID = ''v1'', Name = ''cert-manager-csi-my-pod-v1'', Size = 102400,
                  Path = ''/csi-data-dir/v1'', TargetPath = ''/target'',
                  Attributes = sampleAttrs \<rparr>"

definition sampleKey :: KeyBundle where
  "sampleKey = \<lparr> PEM = ''key-pem'', PrivateKey = ''sk'', SignatureAlgorithm = 4,
                  PublicKeyAlgorithm = 1 \<rparr>"

text \<open>
  Objects the authority may answer with: one without conditions, one marked as failed,
  one ready; all for the issuer \<open>ca-issuer\<close>, or for another issuer.
\<close>

definition sampleCR :: "string \<Rightarrow> CertificateRequestCondition list \<Rightarrow> CertificateRequest" where
  "sampleCR issuer conds =
     \<lparr> Meta = \<lparr> Meta_Name = ''v1'', Namespace = ''default'', OwnerReferences = [] \<rparr>,
       Spec = \<lparr> CSRPEM = ''csr'', IsCA = False, Duration = None,
                IssuerRef = \<lparr> Ref_Name = issuer, Ref_Kind = ''Issuer'', Ref_Group = [] \<rparr> \<rparr>,
       Status = \<lparr> Conditions = conds, Certificate_bytes = ''cert'', CA = ''ca'' \<rparr> \<rparr>"

definition failedCond :: CertificateRequestCondition where
  "failedCond = \<lparr> Type = ''Ready'', Cond_Status = ''False'', Reason = ''Failed'',
                   Message = ''denied by policy'' \<rparr>"

definition readyCond :: CertificateRequestCondition where
  "readyCond = \<lparr> Type = ''Ready'', Cond_Status = ''True'', Reason = ''Issued'',
                  Message = ''Certificate fetched'' \<rparr>"

text \<open>
  A world in which every call succeeds, parameterised by what \<open>Get\<close> answers (as a
  function of the number of \<open>Get\<close> calls made before), by whether the target is a mount
  point, and by what unmounting answers.
\<close>

definition sampleWorld ::
  "(nat \<Rightarrow> error + CertificateRequest) \<Rightarrow> bool \<Rightarrow> error option \<Rightarrow> World" where
  "sampleWorld gets mounted unmount = \<lparr>
     Get_answer = (\<lambda>h ns name. gets (length (filter isGet h))),
     Create_answer = (\<lambda>h ns cr. Inr cr),
     Delete_answer = (\<lambda>h ns name. None),
     Sign_answer = (\<lambda>h csr key. Inr ''der''),
     NewRSAKey_answer = (\<lambda>h. Inr sampleKey),
     ioutil_WriteFile_answer = (\<lambda>h p b perm. None),
     util_WriteFile_answer = (\<lambda>h p b perm. None),
     MkdirAll_answer = (\<lambda>h p perm. None),
     RemoveAll_answer = (\<lambda>h p. None),
     WriteMetaDataFile_answer = (\<lambda>h vol. None),
     ReadMetaDataFile_answer = (\<lambda>h p. (Some sampleVol, None)),
     IsLikelyMountPoint_answer = (\<lambda>h p. (mounted, None)),
     Mount_answer = (\<lambda>h src tgt opts. None),
     Unmount_answer = (\<lambda>h p. unmount),
     WatchCert_answer = (\<lambda>h vol t. None) \<rparr>"

definition notFound :: error where
  "notFound = Lib NotFound ''certificaterequests.cert-manager.io not found''"

text \<open>No object at first; the new one is marked as failed at its third poll.\<close>

definition getsFailing :: "nat \<Rightarrow> error + CertificateRequest" where
  "getsFailing n = (if n = 0 then Inl notFound
                    else if n < 3 then Inr (sampleCR ''ca-issuer'' [])
                    else Inr (sampleCR ''ca-issuer'' [failedCond]))"

text \<open>No object at first; the new one never gets a condition.\<close>

definition getsPending :: "nat \<Rightarrow> error + CertificateRequest" where
  "getsPending n = (if n = 0 then Inl notFound else Inr (sampleCR ''ca-issuer'' []))"

text \<open>No object at first; the new one is ready at its second poll.\<close>

definition getsReady :: "nat \<Rightarrow> error + CertificateRequest" where
  "getsReady n = (if n = 0 then Inl notFound
                  else if n < 2 then Inr (sampleCR ''ca-issuer'' [])
                  else Inr (sampleCR ''ca-issuer'' [readyCond]))"

text \<open>An object for the volume's issuer exists and is ready.\<close>

definition getsMatching :: "nat \<Rightarrow> error + CertificateRequest" where
  "getsMatching n = Inr (sampleCR ''ca-issuer'' [readyCond])"

text \<open>An object for another issuer exists; after it, one for the volume's issuer.\<close>

definition getsStale :: "nat \<Rightarrow> error + CertificateRequest" where
  "getsStale n = (if n = 0 then Inr (sampleCR ''old-issuer'' [readyCond])
                  else Inr (sampleCR ''ca-issuer'' [readyCond]))"

text \<open>The authority cannot be reached.\<close>

definition getsBroken :: "nat \<Rightarrow> error + CertificateRequest" where
  "getsBroken n = Inl (Lib Other ''connection refused'')"

text \<open>No object at first; once created it is ready at every poll.\<close>

definition getsIssued :: "nat \<Rightarrow> error + CertificateRequest" where
  "getsIssued n = (if n = 0 then Inl notFound else Inr (sampleCR ''ca-issuer'' [readyCond]))"

text \<open>
  The node server, a publish request for the sample volume and the matching unpublish
  request.  In \<open>mountingWorld\<close> a path is a mount point once a mount onto it is among
  the events.
\<close>

definition sampleNS :: NodeServer where
  "sampleNS = \<lparr> dataRoot = ''/csi-data-dir'' \<rparr>"


definition sampleUnpub :: NodeUnpublishVolumeRequest where
  "sampleUnpub = \<lparr> Unpub_VolumeId = ''v1'', Unpub_TargetPath = ''/target'' \<rparr>"

fun mountedAt :: "string \<Rightarrow> trace \<Rightarrow> bool" where
  "mountedAt p [] = False"
| "mountedAt p (EMount src tgt opts # es) = (tgt = p \<or> mountedAt p es)"
| "mountedAt p (e # es) = mountedAt p es"

definition mountingWorld :: World where
  "mountingWorld = (sampleWorld getsIssued False None)
     \<lparr> IsLikelyMountPoint_answer := (\<lambda>h p. (mountedAt p h, None)) \<rparr>"



text \<open>
  A publish request that breaks three rules: the volume is not ephemeral, the access
  type is block, and the target path is missing.
\<close>

definition badReq :: NodePublishVolumeRequest where
  "badReq = \<lparr> VolumeId = ''v1'', Req_TargetPath = [],
               VolumeContext = sampleAttrs(CSIEphemeralKey sampleKeys \<mapsto> ''false''),
               Req_VolumeCapability = Some \<lparr> AccessType = BlockAccess \<rparr> \<rparr>"

text \<open>A world in which unmounting fails.\<close>

definition busy :: error where
  "busy = Lib Other ''umount: /target: target is busy''"

definition busyWorld :: World where
  "busyWorld = sampleWorld getsIssued True (Some busy)"

text \<open>The sample volume with a URI name that does not parse.\<close>

definition badURIVol :: MetaData where
  "badURIVol = sampleVol \<lparr> Attributes := sampleAttrs(URISANsKey sampleKeys \<mapsto> ''%zz'') \<rparr>"

section \<open>Properties of attribute validation\<close>

lemma Contains_sublist: "Contains s sub = sublist sub s"
  by (induction s) (auto simp: sublist_Cons_right)



lemma set_boolValue:
  "set (boolValue s k errs) =
     set errs \<union> (if s \<noteq> [] \<and> s \<noteq> ''false'' \<and> s \<noteq> ''true''
                   then {k @ '' may only be set to 'true' for 'false'' @ [CHR 0x27]} else {})"
  by (simp add: boolValue_def)

lemma set_durationParse:
  "set (durationParse pd s k errs) =
     set errs \<union> (case pd s of
                     Inl err \<Rightarrow> if s \<noteq> [] then {k @ '' must be a valid duration string: '' @ Error err} else {}
                   | Inr d \<Rightarrow> {})"
  by (simp add: durationParse_def split: sum.splits)

lemma set_filepathBreakout:
  "set (filepathBreakout s k errs) =
     set errs \<union> (if sublist ''..'' s
                   then {k @ '' filepaths may not contain '' @ [CHR 0x27] @ ''..'' @ [CHR 0x27]} else {})"
  by (simp add: filepathBreakout_def Contains_sublist)

lemma ValidateAttributes_errs:
  "ValidateAttributes K pd attr =
     (if validationErrs K pd attr = [] then None
      else Some (New (Join (validationErrs K pd attr) '', '')))"
  by (simp add: ValidateAttributes_def validationErrs_def Let_def)









lemma validationErrs_Nil_iff:
  "(validationErrs K pd attr = []) =
     (lookup attr (IssuerNameKey K) \<noteq> [] \<and>
      (\<forall>k \<in> {IsCAKey K, DisableAutoRenewKey K, ReusePrivateKey K}.
          lookup attr k = [] \<or> lookup attr k = ''false'' \<or> lookup attr k = ''true'') \<and>
      (\<forall>k \<in> {DurationKey K, RenewBeforeKey K}.
          lookup attr k = [] \<or> (\<exists>d. pd (lookup attr k) = Inr d)) \<and>
      (\<forall>k \<in> {CertFileKey K, KeyFileKey K}. \<not> sublist ''..'' (lookup attr k)))"
proof -
  have "(validationErrs K pd attr = []) = (set (validationErrs K pd attr) = {})"
    by simp
  also have "\<dots> = (lookup attr (IssuerNameKey K) \<noteq> [] \<and>
      (\<forall>k \<in> {IsCAKey K, DisableAutoRenewKey K, ReusePrivateKey K}.
          lookup attr k = [] \<or> lookup attr k = ''false'' \<or> lookup attr k = ''true'') \<and>
      (\<forall>k \<in> {DurationKey K, RenewBeforeKey K}.
          lookup attr k = [] \<or> (\<exists>d. pd (lookup attr k) = Inr d)) \<and>
      (\<forall>k \<in> {CertFileKey K, KeyFileKey K}. \<not> sublist ''..'' (lookup attr k)))"
    unfolding validationErrs_def set_boolValue set_durationParse set_filepathBreakout
    by (auto split: sum.splits if_splits)
  finally show ?thesis .
qed










lemma SplitFrom_sublist:
  "p \<in> set (SplitFrom cur s sep) \<Longrightarrow> sublist p (rev cur @ s)"
proof (induction cur s sep rule: SplitFrom.induct)
  case (1 cur sep)
  then show ?case by simp
next
  case (2 cur c s sep)
  show ?case
  proof (cases "sep \<noteq> [] \<and> prefix sep (c # s)")
    case True
    with 2 have "p = rev cur \<or> p \<in> set (SplitFrom [] (drop (length sep) (c # s)) sep)"
      by simp
    then show ?thesis
    proof
      assume "p = rev cur"
      then show ?thesis by simp
    next
      assume "p \<in> set (SplitFrom [] (drop (length sep) (c # s)) sep)"
      with 2 True have "sublist p (drop (length sep) (c # s))" by simp
      then obtain ps ss where "drop (length sep) (c # s) = ps @ p @ ss"
        by (auto simp: sublist_def)
      then have "rev cur @ c # s = (rev cur @ take (length sep) (c # s) @ ps) @ p @ ss"
        by (metis append.assoc append_take_drop_id)
      then show ?thesis unfolding sublist_def by blast
    qed
  next
    case False
    with 2 have "sublist p (rev (c # cur) @ s)" by auto
    then show ?thesis by simp
  qed
qed

lemma parentDirSegment_sublist: "parentDirSegment s \<Longrightarrow> sublist ''..'' s"
  using SplitFrom_sublist [of "''..''" "[]" s "''/''"]
  by (simp add: parentDirSegment_def Split_def)

text \<open>
  C8 as stated fails: the certificate-file value \<open>a..b\<close> has no parent-directory
  segment, and validation rejects it.
\<close>

theorem filepath_segment_counterexample:
  "\<not> parentDirSegment ''a..b'' \<and>
   ValidateAttributes sampleKeys samplePD
     [IssuerNameKey sampleKeys \<mapsto> ''ca-issuer'', CertFileKey sampleKeys \<mapsto> ''a..b'']
   = Some (New (''csi.cert-manager.io/certificate-file filepaths may not contain ''
                @ [CHR 0x27] @ ''..'' @ [CHR 0x27]))"
  by (simp add: parentDirSegment_def Split_def ValidateAttributes_def Let_def lookup_def
      sampleKeys_def boolValue_def durationParse_def filepathBreakout_def)

text \<open>
  C8, amended.  The path check of the certificate-file and key-file attributes adds its
  error exactly when the value contains two consecutive dots anywhere; every value with
  a parent-directory segment is among those.  When the other rules hold, validation
  passes exactly when neither path value contains \<open>..\<close>.
\<close>

theorem filepath_validation_dotdot:
  "((filepathBreakout s k errs \<noteq> errs) = sublist ''..'' s) \<and>
   (parentDirSegment s \<longrightarrow> filepathBreakout s k errs \<noteq> errs) \<and>
   (lookup attr (IssuerNameKey K) \<noteq> [] \<and>
    (\<forall>k \<in> {IsCAKey K, DisableAutoRenewKey K, ReusePrivateKey K}.
        lookup attr k = [] \<or> lookup attr k = ''false'' \<or> lookup attr k = ''true'') \<and>
    (\<forall>k \<in> {DurationKey K, RenewBeforeKey K}.
        lookup attr k = [] \<or> (\<exists>d. pd (lookup attr k) = Inr d)) \<longrightarrow>
    (ValidateAttributes K pd attr = None) =
      (\<not> sublist ''..'' (lookup attr (CertFileKey K)) \<and>
       \<not> sublist ''..'' (lookup attr (KeyFileKey K))))"
proof (intro conjI impI)
  show 1: "(filepathBreakout s k errs \<noteq> errs) = sublist ''..'' s"
    by (simp add: filepathBreakout_def Contains_sublist)
  show "filepathBreakout s k errs \<noteq> errs" if "parentDirSegment s"
    using 1 that by (simp add: parentDirSegment_sublist)
next
  assume "lookup attr (IssuerNameKey K) \<noteq> [] \<and>
    (\<forall>k \<in> {IsCAKey K, DisableAutoRenewKey K, ReusePrivateKey K}.
        lookup attr k = [] \<or> lookup attr k = ''false'' \<or> lookup attr k = ''true'') \<and>
    (\<forall>k \<in> {DurationKey K, RenewBeforeKey K}.
        lookup attr k = [] \<or> (\<exists>d. pd (lookup attr k) = Inr d))"
  then show "(ValidateAttributes K pd attr = None) =
      (\<not> sublist ''..'' (lookup attr (CertFileKey K)) \<and>
       \<not> sublist ''..'' (lookup attr (KeyFileKey K)))"
    using validationErrs_Nil_iff [of K pd attr]
    by (simp add: ValidateAttributes_errs)
qed

theorem filepath_validation_dotdot_witness:
  "parentDirSegment ''../etc/passwd'' \<and>
   filepathBreakout ''../etc/passwd'' (CertFileKey sampleKeys) []
     = [CertFileKey sampleKeys @ '' filepaths may not contain '' @ [CHR 0x27] @ ''..'' @ [CHR 0x27]] \<and>
   ValidateAttributes sampleKeys samplePD
     [IssuerNameKey sampleKeys \<mapsto> ''ca-issuer'', CertFileKey sampleKeys \<mapsto> ''tls.crt''] = None"
proof -
  let ?attr = "[IssuerNameKey sampleKeys \<mapsto> ''ca-issuer'', CertFileKey sampleKeys \<mapsto> ''tls.crt'']"
  have seg: "parentDirSegment ''../etc/passwd''"
    by (simp add: parentDirSegment_def Split_def)
  have l: "lookup ?attr (IssuerNameKey sampleKeys) = ''ca-issuer''"
     "lookup ?attr (CertFileKey sampleKeys) = ''tls.crt''"
     "lookup ?attr (KeyFileKey sampleKeys) = []"
     "lookup ?attr (IsCAKey sampleKeys) = []"
     "lookup ?attr (DisableAutoRenewKey sampleKeys) = []"
     "lookup ?attr (ReusePrivateKey sampleKeys) = []"
     "lookup ?attr (DurationKey sampleKeys) = []"
     "lookup ?attr (RenewBeforeKey sampleKeys) = []"
    by (simp_all add: lookup_def sampleKeys_def)
  have nd: "\<not> sublist ''..'' ''tls.crt''" "\<not> sublist ''..'' []"
    by (simp_all add: Contains_sublist [symmetric])
  note T = filepath_validation_dotdot
  from T [of "''../etc/passwd''" "CertFileKey sampleKeys" "[]"] seg
  have "filepathBreakout ''../etc/passwd'' (CertFileKey sampleKeys) [] \<noteq> []"
    by blast
  then have 1: "filepathBreakout ''../etc/passwd'' (CertFileKey sampleKeys) []
     = [CertFileKey sampleKeys @ '' filepaths may not contain '' @ [CHR 0x27] @ ''..'' @ [CHR 0x27]]"
    by (simp add: filepathBreakout_def split: if_splits)
  from T [of _ _ _ ?attr sampleKeys samplePD] l nd
  have 2: "ValidateAttributes sampleKeys samplePD ?attr = None"
    by simp
  from seg 1 2 show ?thesis by simp
qed

section \<open>Properties of the issuance engine\<close>

lemma readyCondition_notYetReady:
  "notYetReady W name ns h 0 \<Longrightarrow>
     \<exists>c'. readyCondition W name ns (c, h) = (Inr False, c', h @ [EGet ns name])"
  by (auto simp: notYetReady_def pollAnswer_def readyCondition_def cmClient_Get_def
           split: sum.splits prod.splits)

lemma notYetReady_shift:
  "notYetReady W name ns (h @ [EGet ns name]) j = notYetReady W name ns h (Suc j)"
  by (simp add: notYetReady_def pollAnswer_def replicate_app_Cons_same)

lemma poll_notYetReady:
  "\<forall>j<i. notYetReady W name ns h j \<Longrightarrow> i \<le> n \<Longrightarrow>
     \<exists>c'. poll n (readyCondition W name ns) (c, h) =
           poll (n - i) (readyCondition W name ns) (c', h @ replicate i (EGet ns name))"
proof (induction i arbitrary: n c h)
  case 0
  then show ?case by auto
next
  case (Suc i)
  from Suc.prems obtain m where n: "n = Suc m" and im: "i \<le> m"
    by (cases n) auto
  from Suc.prems have "notYetReady W name ns h 0" by blast
  then obtain c1 where
    c1: "readyCondition W name ns (c, h) = (Inr False, c1, h @ [EGet ns name])"
    using readyCondition_notYetReady by blast
  from Suc.prems have "\<forall>j<i. notYetReady W name ns (h @ [EGet ns name]) j"
    by (simp add: notYetReady_shift)
  from Suc.IH [OF this im, of c1] obtain c' where
    "poll m (readyCondition W name ns) (c1, h @ [EGet ns name]) =
     poll (m - i) (readyCondition W name ns)
       (c', (h @ [EGet ns name]) @ replicate i (EGet ns name))"
    by blast
  then show ?case
    using c1 n by (auto simp: replicate_app_Cons_same)
qed

lemma wait_failed:
  assumes "i \<le> 30" "\<forall>j<i. notYetReady W name ns h j"
    and "pollAnswer W name ns h i = Inr cr" "CertificateRequestFailed cr = (reason, True)"
  shows "waitForCertificateRequestReady W name ns (Second * 30) h =
           ((Some cr, Some (New (''certificate request marked as failed: '' @ reason))),
            h @ replicate (Suc i) (EGet ns name))"
proof -
  from poll_notYetReady [OF assms(2), of 31 None] assms(1) obtain c' where
    "poll 31 (readyCondition W name ns) (None, h) =
       poll (31 - i) (readyCondition W name ns) (c', h @ replicate i (EGet ns name))"
    by auto
  moreover from assms(1) obtain m where "31 - i = Suc m" by (cases "31 - i") auto
  moreover have "readyCondition W name ns (c', h @ replicate i (EGet ns name)) =
      (Inl (New (''certificate request marked as failed: '' @ reason)), Some cr,
       h @ replicate (Suc i) (EGet ns name))"
    using assms(3,4)
    by (simp add: readyCondition_def cmClient_Get_def pollAnswer_def replicate_append_same)
  ultimately show ?thesis
    by (simp add: waitForCertificateRequestReady_def PollImmediate_def Second_def)
qed


lemma wait_ready:
  assumes "i \<le> 30" "\<forall>j<i. notYetReady W name ns h j"
    and "pollAnswer W name ns h i = Inr cr" "\<not> snd (CertificateRequestFailed cr)"
        "CertificateRequestReady cr"
  shows "waitForCertificateRequestReady W name ns (Second * 30) h =
           ((Some cr, None), h @ replicate (Suc i) (EGet ns name))"
proof -
  from poll_notYetReady [OF assms(2), of 31 None] assms(1) obtain c' where
    "poll 31 (readyCondition W name ns) (None, h) =
       poll (31 - i) (readyCondition W name ns) (c', h @ replicate i (EGet ns name))"
    by auto
  moreover from assms(1) obtain m where "31 - i = Suc m" by (cases "31 - i") auto
  moreover have "readyCondition W name ns (c', h @ replicate i (EGet ns name)) =
      (Inr True, Some cr, h @ replicate (Suc i) (EGet ns name))"
    using assms(3,4,5)
    by (cases "CertificateRequestFailed cr")
       (simp add: readyCondition_def cmClient_Get_def pollAnswer_def replicate_append_same)
  ultimately show ?thesis
    by (simp add: waitForCertificateRequestReady_def PollImmediate_def Second_def)
qed

lemma wait_timeout:
  assumes "\<forall>j\<le>30. notYetReady W name ns h j"
  shows "\<exists>c. waitForCertificateRequestReady W name ns (Second * 30) h =
           ((c, Some ErrWaitTimeout), h @ replicate 31 (EGet ns name))"
proof -
  from assms have "\<forall>j<31. notYetReady W name ns h j" by simp
  from poll_notYetReady [OF this, of 31 None] obtain c' where
    "poll 31 (readyCondition W name ns) (None, h) =
       poll 0 (readyCondition W name ns) (c', h @ replicate 31 (EGet ns name))"
    by auto
  then show ?thesis
    by (simp add: waitForCertificateRequestReady_def PollImmediate_def Second_def)
qed

text \<open>
  C5.  Once the request phase of an issuance is over (the existing object is reused, or
  a new one has been created), the object is polled with an interval of one second and
  a timeout of thirty: at most 31 polls.  As long as the polls answer an object that is
  neither marked as failed nor ready, polling goes on.  The first poll that finds the
  \<open>Failed\<close> reason ends the call at once, with an error that carries the message reported
  with it, and no further poll is made; if all 31 polls find the object not ready, the
  call ends with the timeout error; the first poll that finds it ready ends the waiting
  with that object.
\<close>

theorem issuance_polling:
  assumes "checkExistingCertificateRequest K L W vol h = (Inr ok, h1)"
    and "(if \<not> ok then newCertificateRequest K L W vol keyBundle h1 else (None, h1)) = (None, h2)"
    and "ns = lookup (Attributes vol) (CSIPodNamespaceKey K)"
  shows
   "(\<forall>i cr reason.
       i \<le> 30 \<and> (\<forall>j<i. notYetReady W (ID vol) ns h2 j) \<and>
       pollAnswer W (ID vol) ns h2 i = Inr cr \<and> CertificateRequestFailed cr = (reason, True) \<longrightarrow>
       CreateNewCertificate K L W vol keyBundle h =
         (Inl (New (''certificate request marked as failed: '' @ reason)),
          h2 @ replicate (Suc i) (EGet ns (ID vol)))) \<and>
    ((\<forall>j\<le>30. notYetReady W (ID vol) ns h2 j) \<longrightarrow>
       CreateNewCertificate K L W vol keyBundle h =
         (Inl ErrWaitTimeout, h2 @ replicate 31 (EGet ns (ID vol)))) \<and>
    (\<forall>i cr.
       i \<le> 30 \<and> (\<forall>j<i. notYetReady W (ID vol) ns h2 j) \<and>
       pollAnswer W (ID vol) ns h2 i = Inr cr \<and> \<not> snd (CertificateRequestFailed cr) \<and>
       CertificateRequestReady cr \<longrightarrow>
       waitForCertificateRequestReady W (ID vol) ns (Second * 30) h2 =
         ((Some cr, None), h2 @ replicate (Suc i) (EGet ns (ID vol))))"
proof (intro conjI allI impI)
  fix i cr reason
  assume "i \<le> 30 \<and> (\<forall>j<i. notYetReady W (ID vol) ns h2 j) \<and>
       pollAnswer W (ID vol) ns h2 i = Inr cr \<and> CertificateRequestFailed cr = (reason, True)"
  then have "waitForCertificateRequestReady W (ID vol) ns (Second * 30) h2 =
           ((Some cr, Some (New (''certificate request marked as failed: '' @ reason))),
            h2 @ replicate (Suc i) (EGet ns (ID vol)))"
    by (intro wait_failed) auto
  with assms show "CreateNewCertificate K L W vol keyBundle h =
         (Inl (New (''certificate request marked as failed: '' @ reason)),
          h2 @ replicate (Suc i) (EGet ns (ID vol)))"
    by (simp add: CreateNewCertificate_def)
next
  assume "\<forall>j\<le>30. notYetReady W (ID vol) ns h2 j"
  then obtain c where "waitForCertificateRequestReady W (ID vol) ns (Second * 30) h2 =
           ((c, Some ErrWaitTimeout), h2 @ replicate 31 (EGet ns (ID vol)))"
    using wait_timeout by blast
  with assms show "CreateNewCertificate K L W vol keyBundle h =
         (Inl ErrWaitTimeout, h2 @ replicate 31 (EGet ns (ID vol)))"
    by (simp add: CreateNewCertificate_def)
next
  fix i cr
  assume "i \<le> 30 \<and> (\<forall>j<i. notYetReady W (ID vol) ns h2 j) \<and>
       pollAnswer W (ID vol) ns h2 i = Inr cr \<and> \<not> snd (CertificateRequestFailed cr) \<and>
       CertificateRequestReady cr"
  then show "waitForCertificateRequestReady W (ID vol) ns (Second * 30) h2 =
         ((Some cr, None), h2 @ replicate (Suc i) (EGet ns (ID vol)))"
    by (intro wait_ready) auto
qed


lemma sample_lookups:
  "lookup sampleAttrs (CSIPodNamespaceKey sampleKeys) = ''default''"
  "lookup sampleAttrs (CSIPodNameKey sampleKeys) = ''my-pod''"
  "lookup sampleAttrs (CSIPodUIDKey sampleKeys) = ''uid-1''"
  "lookup sampleAttrs (IssuerNameKey sampleKeys) = ''ca-issuer''"
  "lookup sampleAttrs (IssuerKindKey sampleKeys) = []"
  "lookup sampleAttrs (IssuerGroupKey sampleKeys) = []"
  "lookup sampleAttrs (URISANsKey sampleKeys) = []"
  "lookup sampleAttrs (IPSANsKey sampleKeys) = []"
  "lookup sampleAttrs (DNSNamesKey sampleKeys) = []"
  "lookup sampleAttrs (CommonNameKey sampleKeys) = []"
  "sampleAttrs (DurationKey sampleKeys) = None"
  "sampleAttrs (IsCAKey sampleKeys) = None"
  "sampleAttrs (DisableAutoRenewKey sampleKeys) = None"
  by (simp_all add: lookup_def sampleAttrs_def sampleKeys_def)

lemma sample_check:
  "gets 0 = Inl notFound \<Longrightarrow>
   checkExistingCertificateRequest sampleKeys sampleLib (sampleWorld gets m u) sampleVol [] =
     (Inr False, [EGet ''default'' ''v1''])"
  by (simp add: checkExistingCertificateRequest_def cmClient_Get_def sampleWorld_def
      sampleVol_def sample_lookups notFound_def)

lemma sample_new:
  "\<exists>csr cr.
   newCertificateRequest sampleKeys sampleLib (sampleWorld gets m u) sampleVol sampleKey
     [EGet ''default'' ''v1''] =
     (None, [EGet ''default'' ''v1'', ESign csr ''sk'', ECreate ''default'' cr])"
  by (simp add: newCertificateRequest_def EncodeCSR_def x509_CreateCertificateRequest_def
      cmClient_Create_def sampleWorld_def sampleVol_def sampleLib_def sampleKey_def
      sample_lookups Let_def)

lemma sample_pollAnswer:
  "pollAnswer (sampleWorld gets m u) name ns
     ([EGet ''default'' ''v1'', ESign csr ''sk'', ECreate ''default'' cr]) i = gets (Suc i)"
  by (simp add: pollAnswer_def sampleWorld_def)

lemma sample_conditions:
  "CertificateRequestFailed (sampleCR ''ca-issuer'' []) = ([], False)"
  "\<not> CertificateRequestReady (sampleCR ''ca-issuer'' [])"
  "CertificateRequestFailed (sampleCR ''ca-issuer'' [failedCond]) = (''denied by policy'', True)"
  "CertificateRequestFailed (sampleCR ''ca-issuer'' [readyCond]) = ([], False)"
  "CertificateRequestReady (sampleCR ''ca-issuer'' [readyCond])"
  by (simp_all add: CertificateRequestFailed_def CertificateRequestReady_def sampleCR_def
      failedCond_def readyCond_def CertificateRequestConditionReady_def ConditionTrue_def)

theorem issuance_polling_witness:
  "fst (CreateNewCertificate sampleKeys sampleLib (sampleWorld getsFailing False None)
          sampleVol sampleKey []) =
     Inl (New ''certificate request marked as failed: denied by policy'') \<and>
   length (filter isGet (snd (CreateNewCertificate sampleKeys sampleLib
          (sampleWorld getsFailing False None) sampleVol sampleKey []))) = 4 \<and>
   fst (CreateNewCertificate sampleKeys sampleLib (sampleWorld getsPending False None)
          sampleVol sampleKey []) = Inl ErrWaitTimeout \<and>
   length (filter isGet (snd (CreateNewCertificate sampleKeys sampleLib
          (sampleWorld getsPending False None) sampleVol sampleKey []))) = 32"
proof -
  let ?WF = "sampleWorld getsFailing False None"
  let ?WP = "sampleWorld getsPending False None"
  obtain csr cr where nF: "newCertificateRequest sampleKeys sampleLib ?WF sampleVol sampleKey
     [EGet ''default'' ''v1''] =
     (None, [EGet ''default'' ''v1'', ESign csr ''sk'', ECreate ''default'' cr])"
    using sample_new by blast
  obtain csr' cr' where nP: "newCertificateRequest sampleKeys sampleLib ?WP sampleVol sampleKey
     [EGet ''default'' ''v1''] =
     (None, [EGet ''default'' ''v1'', ESign csr' ''sk'', ECreate ''default'' cr'])"
    using sample_new by blast
  have cF: "checkExistingCertificateRequest sampleKeys sampleLib ?WF sampleVol [] =
     (Inr False, [EGet ''default'' ''v1''])"
    by (rule sample_check) (simp add: getsFailing_def)
  have cP: "checkExistingCertificateRequest sampleKeys sampleLib ?WP sampleVol [] =
     (Inr False, [EGet ''default'' ''v1''])"
    by (rule sample_check) (simp add: getsPending_def)
  have ns: "''default'' = lookup (Attributes sampleVol) (CSIPodNamespaceKey sampleKeys)"
    by (simp add: sampleVol_def sample_lookups)
  have id: "ID sampleVol = ''v1''" by (simp add: sampleVol_def)
  have pF: "\<forall>j<2. notYetReady ?WF ''v1'' ''default''
       [EGet ''default'' ''v1'', ESign csr ''sk'', ECreate ''default'' cr] j"
    by (simp add: notYetReady_def sample_pollAnswer getsFailing_def sample_conditions)
  have aF: "pollAnswer ?WF ''v1'' ''default''
       [EGet ''default'' ''v1'', ESign csr ''sk'', ECreate ''default'' cr] 2 =
       Inr (sampleCR ''ca-issuer'' [failedCond])"
    by (simp add: sample_pollAnswer getsFailing_def)
  have pP: "\<forall>j\<le>30. notYetReady ?WP ''v1'' ''default''
       [EGet ''default'' ''v1'', ESign csr' ''sk'', ECreate ''default'' cr'] j"
    by (simp add: notYetReady_def sample_pollAnswer getsPending_def sample_conditions)
  have F: "CreateNewCertificate sampleKeys sampleLib ?WF sampleVol sampleKey [] =
     (Inl (New (''certificate request marked as failed: '' @ ''denied by policy'')),
      [EGet ''default'' ''v1'', ESign csr ''sk'', ECreate ''default'' cr]
        @ replicate (Suc 2) (EGet ''default'' ''v1''))"
    using issuance_polling [OF cF _ ns, of sampleKey, THEN conjunct1, rule_format,
        of _ 2 "sampleCR ''ca-issuer'' [failedCond]" "''denied by policy''"]
      nF pF aF sample_conditions(3)
    by (simp add: id)
  have P: "CreateNewCertificate sampleKeys sampleLib ?WP sampleVol sampleKey [] =
     (Inl ErrWaitTimeout,
      [EGet ''default'' ''v1'', ESign csr' ''sk'', ECreate ''default'' cr']
        @ replicate 31 (EGet ''default'' ''v1''))"
    using issuance_polling [OF cP _ ns, of sampleKey, THEN conjunct2, THEN conjunct1,
        rule_format] nP pP
    by (simp add: id)
  show ?thesis by (simp add: F P)
qed

lemma created_append: "created (xs @ ys) = created xs @ created ys"
  by (induction xs rule: created.induct) simp_all

lemma deleted_append: "deleted (xs @ ys) = deleted xs @ deleted ys"
  by (induction xs rule: deleted.induct) simp_all

lemma signed_append: "signed (xs @ ys) = signed xs @ signed ys"
  by (induction xs rule: signed.induct) simp_all

lemma written_append: "written (xs @ ys) = written xs @ written ys"
  by (simp add: written_def)

lemma replicate_EGet:
  "created (replicate k (EGet ns name)) = []"
  "deleted (replicate k (EGet ns name)) = []"
  "signed (replicate k (EGet ns name)) = []"
  "written (replicate k (EGet ns name)) = []"
  by (induction k) (simp_all add: written_def)

lemmas trace_simps = created_append deleted_append signed_append written_append replicate_EGet

lemma readyCondition_trace:
  "snd (snd (readyCondition W name ns (c, h))) = h @ [EGet ns name]"
  by (simp add: readyCondition_def cmClient_Get_def split: sum.splits prod.splits)

lemma poll_trace:
  "\<exists>k. snd (snd (poll n (readyCondition W name ns) (c, h))) = h @ replicate k (EGet ns name)"
proof (induction n arbitrary: c h)
  case 0
  show ?case by (rule exI [of _ 0]) simp
next
  case (Suc n)
  obtain r c1 h1 where rc: "readyCondition W name ns (c, h) = (r, c1, h1)"
    by (cases "readyCondition W name ns (c, h)") auto
  with readyCondition_trace [of W name ns c h] have h1: "h1 = h @ [EGet ns name]" by simp
  show ?case
  proof (cases r)
    case (Inl err)
    with rc h1 show ?thesis by (intro exI [of _ 1]) simp
  next
    case (Inr b)
    show ?thesis
    proof (cases b)
      case True
      with rc h1 Inr show ?thesis by (intro exI [of _ 1]) simp
    next
      case False
      from Suc [of c1 h1] obtain k where
        "snd (snd (poll n (readyCondition W name ns) (c1, h1))) = h1 @ replicate k (EGet ns name)"
        by blast
      with rc h1 Inr False show ?thesis
        by (intro exI [of _ "Suc k"]) (simp add: replicate_app_Cons_same)
    qed
  qed
qed

lemma poll_ready:
  "poll n (readyCondition W name ns) (c, h) = (None, c', h') \<Longrightarrow>
     \<exists>cr. c' = Some cr \<and> CertificateRequestReady cr"
proof (induction n arbitrary: c h)
  case 0
  then show ?case by simp
next
  case (Suc n)
  then show ?case
    by (auto simp: readyCondition_def cmClient_Get_def
             split: sum.splits prod.splits bool.splits if_splits)
qed

lemma wait_trace:
  "\<exists>k. snd (waitForCertificateRequestReady W name ns timeout h) = h @ replicate k (EGet ns name)"
proof -
  obtain e c h' where p: "PollImmediate Second timeout (readyCondition W name ns) (None, h) = (e, c, h')"
    by (cases "PollImmediate Second timeout (readyCondition W name ns) (None, h)") auto
  from poll_trace [of "Suc (nat (timeout div Second))" W name ns None h] p
  obtain k where "h' = h @ replicate k (EGet ns name)"
    by (auto simp: PollImmediate_def)
  with p show ?thesis
    by (auto simp: waitForCertificateRequestReady_def split: option.splits)
qed

lemma wait_ready_result:
  "waitForCertificateRequestReady W name ns timeout h = ((c, None), h') \<Longrightarrow>
     \<exists>cr. c = Some cr \<and> CertificateRequestReady cr"
  using poll_ready [of "Suc (nat (timeout div Second))" W name ns None h]
  by (auto simp: waitForCertificateRequestReady_def PollImmediate_def
           split: option.splits prod.splits)


lemma check_cases:
  "checkExistingCertificateRequest K L W vol h =
     (let ns = lookup (Attributes vol) (CSIPodNamespaceKey K)
      in case Get_answer W h ns (ID vol) of
           Inl err \<Rightarrow> (if IsNotFound err then Inr False else Inl err, h @ [EGet ns (ID vol)])
         | Inr cr \<Rightarrow>
             (case util_CertificateRequestMatchesSpec L cr (Attributes vol) of
                None \<Rightarrow> (Inr True, h @ [EGet ns (ID vol)])
              | Some e \<Rightarrow>
                  (case Delete_answer W (h @ [EGet ns (ID vol)]) ns (ID vol) of
                     None \<Rightarrow> (Inr False, h @ [EGet ns (ID vol), EDelete ns (ID vol)])
                   | Some err \<Rightarrow> (Inl err, h @ [EGet ns (ID vol), EDelete ns (ID vol)]))))"
  by (simp add: checkExistingCertificateRequest_def cmClient_Get_def cmClient_Delete_def Let_def
           split: sum.splits option.splits)

lemma new_trace:
  "snd (newCertificateRequest K L W vol kb h) = h \<or>
   (\<exists>csr. snd (newCertificateRequest K L W vol kb h) = h @ [ESign csr (PrivateKey kb)] \<and>
      fst (newCertificateRequest K L W vol kb h) \<noteq> None \<and>
      DNSNames csr = Split (lookup (Attributes vol) (DNSNamesKey K)) '','') \<or>
   (\<exists>csr cr. snd (newCertificateRequest K L W vol kb h) =
        h @ [ESign csr (PrivateKey kb), ECreate (lookup (Attributes vol) (CSIPodNamespaceKey K)) cr] \<and>
      DNSNames csr = Split (lookup (Attributes vol) (DNSNamesKey K)) '','' \<and>
      Meta_Name (Meta cr) = ID vol \<and>
      Namespace (Meta cr) = lookup (Attributes vol) (CSIPodNamespaceKey K) \<and>
      map Owner_Name (OwnerReferences (Meta cr)) = [lookup (Attributes vol) (CSIPodNamespaceKey K)])"
  by (simp add: newCertificateRequest_def EncodeCSR_def x509_CreateCertificateRequest_def
        cmClient_Create_def Let_def
      split: sum.splits option.splits)

lemma new_no_write:
  "written (snd (newCertificateRequest K L W vol kb h)) = written h \<and>
   deleted (snd (newCertificateRequest K L W vol kb h)) = deleted h \<and>
   prefix h (snd (newCertificateRequest K L W vol kb h))"
  using new_trace [of K L W vol kb h]
  by (auto simp: trace_simps written_def)

lemma finish_trace:
  assumes "checkExistingCertificateRequest K L W vol h = (Inr ok, h1)"
    and "(if \<not> ok then newCertificateRequest K L W vol kb h1 else (None, h1)) = (None, h2)"
    and "ns = lookup (Attributes vol) (CSIPodNamespaceKey K)"
  shows "prefix h2 (snd (CreateNewCertificate K L W vol kb h)) \<and>
         created (snd (CreateNewCertificate K L W vol kb h)) = created h2 \<and>
         deleted (snd (CreateNewCertificate K L W vol kb h)) = deleted h2 \<and>
         signed (snd (CreateNewCertificate K L W vol kb h)) = signed h2 \<and>
         (written (snd (CreateNewCertificate K L W vol kb h)) \<noteq> written h2 \<longrightarrow>
            (\<exists>cr h3. waitForCertificateRequestReady W (ID vol) ns (Second * 30) h2 =
                        ((Some cr, None), h3) \<and>
                      CertificateRequestReady cr \<and>
                      written h3 = written h2 \<and>
                      prefix h3 (snd (CreateNewCertificate K L W vol kb h)))) \<and>
         (snd (fst (waitForCertificateRequestReady W (ID vol) ns (Second * 30) h2)) \<noteq> None \<longrightarrow>
            CreateNewCertificate K L W vol kb h =
              (Inl (the (snd (fst (waitForCertificateRequestReady W (ID vol) ns (Second * 30) h2)))),
               snd (waitForCertificateRequestReady W (ID vol) ns (Second * 30) h2)))"
proof -
  obtain c e h3 where w: "waitForCertificateRequestReady W (ID vol) ns (Second * 30) h2 = ((c, e), h3)"
    by (cases "waitForCertificateRequestReady W (ID vol) ns (Second * 30) h2") auto
  from wait_trace [of W "ID vol" ns "Second * 30" h2] w
  obtain k where h3: "h3 = h2 @ replicate k (EGet ns (ID vol))" by auto
  show ?thesis
  proof (cases e)
    case (Some err)
    with assms w h3 show ?thesis
      by (simp add: CreateNewCertificate_def trace_simps)
  next
    case None
    with w wait_ready_result obtain cr where cr: "c = Some cr" "CertificateRequestReady cr"
      by blast
    with assms w h3 None show ?thesis
      by (simp add: CreateNewCertificate_def trace_simps Let_def
            ioutil_WriteFile_def util_WriteFile_def
          split: sum.splits option.splits)
  qed
qed


lemma sample_built:
  "\<exists>uris. util_ParseURIs sampleLib (lookup (Attributes sampleVol) (URISANsKey sampleKeys)) = Inr uris"
  "\<forall>durStr. Attributes sampleVol (DurationKey sampleKeys) = Some durStr \<longrightarrow>
           (\<exists>d. time_ParseDuration sampleLib durStr = Inr d)"
  "\<forall>h' csr. \<exists>der. Sign_answer (sampleWorld gets m u) h' csr (PrivateKey sampleKey) = Inr der"
  by (simp_all add: sampleLib_def sampleVol_def sample_lookups sampleWorld_def)

lemma sample_ns:
  "''default'' = lookup (Attributes sampleVol) (CSIPodNamespaceKey sampleKeys)"
  "ID sampleVol = ''v1''"
  by (simp_all add: sampleVol_def sample_lookups)

lemma sample_Get:
  "Get_answer (sampleWorld gets m u) [] ns name = gets 0"
  "Delete_answer (sampleWorld gets m u) h ns name = None"
  by (simp_all add: sampleWorld_def)

lemma sample_matches:
  "util_CertificateRequestMatchesSpec sampleLib (sampleCR ''ca-issuer'' c) (Attributes sampleVol) = None"
  "util_CertificateRequestMatchesSpec sampleLib (sampleCR ''old-issuer'' c) (Attributes sampleVol)
     = Some (New ''issuer name does not match'')"
  by (simp_all add: sampleLib_def sampleCR_def sampleVol_def sample_lookups)

lemma check_no_write:
  "written (snd (checkExistingCertificateRequest K L W vol h)) = written h"
  by (simp add: check_cases Let_def trace_simps written_def split: sum.splits option.splits)

text \<open>
  C9.  An issuance call that ends with an error of the check for an existing object, of
  building or creating the new object, or of the polling, returns that error and has
  written no file: the writes in its trace are those that were there before.  Whenever
  the call has written anything, the polling before had ended with a ready object, and
  nothing was written up to the end of the polling.
\<close>

theorem no_write_before_ready:
  assumes ns: "ns = lookup (Attributes vol) (CSIPodNamespaceKey K)"
    and t: "t = snd (CreateNewCertificate K L W vol kb h)"
  shows
  "(\<forall>err. fst (checkExistingCertificateRequest K L W vol h) = Inl err \<longrightarrow>
      fst (CreateNewCertificate K L W vol kb h) = Inl err \<and> written t = written h) \<and>
   (\<forall>h1 err. checkExistingCertificateRequest K L W vol h = (Inr False, h1) \<and>
        fst (newCertificateRequest K L W vol kb h1) = Some err \<longrightarrow>
      fst (CreateNewCertificate K L W vol kb h) = Inl err \<and> written t = written h) \<and>
   (\<forall>ok h1 h2 err. checkExistingCertificateRequest K L W vol h = (Inr ok, h1) \<and>
        (if \<not> ok then newCertificateRequest K L W vol kb h1 else (None, h1)) = (None, h2) \<and>
        snd (fst (waitForCertificateRequestReady W (ID vol) ns (Second * 30) h2)) = Some err \<longrightarrow>
      fst (CreateNewCertificate K L W vol kb h) = Inl err \<and> written t = written h) \<and>
   (written t \<noteq> written h \<longrightarrow>
      (\<exists>cr h2 h3. waitForCertificateRequestReady W (ID vol) ns (Second * 30) h2 =
                     ((Some cr, None), h3) \<and>
                   CertificateRequestReady cr \<and> written h3 = written h \<and> prefix h3 t))"
proof (intro conjI allI impI)
  fix err
  assume "fst (checkExistingCertificateRequest K L W vol h) = Inl err"
  then obtain h1 where c: "checkExistingCertificateRequest K L W vol h = (Inl err, h1)"
    by (cases "checkExistingCertificateRequest K L W vol h") auto
  with check_no_write [of K L W vol h] have "written h1 = written h" by simp
  with c t show "fst (CreateNewCertificate K L W vol kb h) = Inl err" "written t = written h"
    by (simp_all add: CreateNewCertificate_def)
next
  fix h1 err
  assume a: "checkExistingCertificateRequest K L W vol h = (Inr False, h1) \<and>
        fst (newCertificateRequest K L W vol kb h1) = Some err"
  then obtain h2 where n: "newCertificateRequest K L W vol kb h1 = (Some err, h2)"
    by (cases "newCertificateRequest K L W vol kb h1") auto
  from a check_no_write [of K L W vol h] have "written h1 = written h" by simp
  with n new_no_write [of K L W vol kb h1] have "written h2 = written h" by simp
  with a n t show "fst (CreateNewCertificate K L W vol kb h) = Inl err" "written t = written h"
    by (simp_all add: CreateNewCertificate_def)
next
  fix ok h1 h2 err
  assume a: "checkExistingCertificateRequest K L W vol h = (Inr ok, h1) \<and>
        (if \<not> ok then newCertificateRequest K L W vol kb h1 else (None, h1)) = (None, h2) \<and>
        snd (fst (waitForCertificateRequestReady W (ID vol) ns (Second * 30) h2)) = Some err"
  from a check_no_write [of K L W vol h] have 1: "written h1 = written h" by simp
  from a new_no_write [of K L W vol kb h1] 1 have 2: "written h2 = written h"
    by (auto split: if_splits)
  from a have c: "checkExistingCertificateRequest K L W vol h = (Inr ok, h1)"
    and n: "(if \<not> ok then newCertificateRequest K L W vol kb h1 else (None, h1)) = (None, h2)"
    by simp_all
  from finish_trace [OF c n ns] a t 2
  show "fst (CreateNewCertificate K L W vol kb h) = Inl err" "written t = written h"
    by auto
next
  assume w: "written t \<noteq> written h"
  obtain r1 h1 where c: "checkExistingCertificateRequest K L W vol h = (r1, h1)"
    by (cases "checkExistingCertificateRequest K L W vol h") auto
  with check_no_write [of K L W vol h] have 1: "written h1 = written h" by simp
  show "\<exists>cr h2 h3. waitForCertificateRequestReady W (ID vol) ns (Second * 30) h2 =
                     ((Some cr, None), h3) \<and>
                   CertificateRequestReady cr \<and> written h3 = written h \<and> prefix h3 t"
  proof (cases r1)
    case (Inl err)
    with c t 1 w show ?thesis by (simp add: CreateNewCertificate_def)
  next
    case (Inr ok)
    obtain r2 h2 where
      n: "(if \<not> ok then newCertificateRequest K L W vol kb h1 else (None, h1)) = (r2, h2)"
      by (cases "if \<not> ok then newCertificateRequest K L W vol kb h1 else (None, h1)") auto
    with new_no_write [of K L W vol kb h1] 1 have 2: "written h2 = written h"
      by (auto split: if_splits)
    show ?thesis
    proof (cases r2)
      case (Some err)
      with c Inr n t 2 w show ?thesis by (simp add: CreateNewCertificate_def)
    next
      case None
      with c Inr n have c': "checkExistingCertificateRequest K L W vol h = (Inr ok, h1)"
        and n': "(if \<not> ok then newCertificateRequest K L W vol kb h1 else (None, h1)) = (None, h2)"
        by simp_all
      from finish_trace [OF c' n' ns] t w 2 show ?thesis by auto
    qed
  qed
qed


lemma sample_new_props:
  "\<exists>csr cr.
   newCertificateRequest sampleKeys sampleLib (sampleWorld gets m u) sampleVol sampleKey
     [EGet ''default'' ''v1''] =
     (None, [EGet ''default'' ''v1'', ESign csr ''sk'', ECreate ''default'' cr]) \<and>
   DNSNames csr = [[]] \<and>
   map (\<lambda>r. (Kind r, Owner_Name r, UID r)) (OwnerReferences (Meta cr)) =
     [(''Pod'', ''default'', ''uid-1'')]"
  by (simp add: newCertificateRequest_def EncodeCSR_def x509_CreateCertificateRequest_def
      cmClient_Create_def sampleWorld_def sampleVol_def sampleLib_def sampleKey_def
      sample_lookups Let_def Split_def)

theorem no_write_before_ready_witness:
  "fst (CreateNewCertificate sampleKeys sampleLib (sampleWorld getsBroken False None)
          sampleVol sampleKey []) = Inl (Lib Other ''connection refused'') \<and>
   written (snd (CreateNewCertificate sampleKeys sampleLib (sampleWorld getsBroken False None)
          sampleVol sampleKey [])) = [] \<and>
   fst (CreateNewCertificate sampleKeys sampleLib (sampleWorld getsFailing False None)
          sampleVol sampleKey []) =
     Inl (New ''certificate request marked as failed: denied by policy'') \<and>
   written (snd (CreateNewCertificate sampleKeys sampleLib (sampleWorld getsFailing False None)
          sampleVol sampleKey [])) = []"
proof -
  let ?WB = "sampleWorld getsBroken False None"
  let ?WF = "sampleWorld getsFailing False None"
  note T = no_write_before_ready [where L = sampleLib and kb = sampleKey and h = "[]",
      OF sample_ns(1) refl]
  have cB: "fst (checkExistingCertificateRequest sampleKeys sampleLib ?WB sampleVol []) =
      Inl (Lib Other ''connection refused'')"
    by (simp add: check_cases Let_def sample_Get getsBroken_def)
  have B: "fst (CreateNewCertificate sampleKeys sampleLib ?WB sampleVol sampleKey []) =
      Inl (Lib Other ''connection refused'') \<and>
    written (snd (CreateNewCertificate sampleKeys sampleLib ?WB sampleVol sampleKey [])) = []"
    using T [where W = ?WB, THEN conjunct1, rule_format, OF cB] by (simp add: written_def)
  obtain csr cr where nF: "newCertificateRequest sampleKeys sampleLib ?WF sampleVol sampleKey
     [EGet ''default'' ''v1''] =
     (None, [EGet ''default'' ''v1'', ESign csr ''sk'', ECreate ''default'' cr])"
    using sample_new by blast
  have cF: "checkExistingCertificateRequest sampleKeys sampleLib ?WF sampleVol [] =
     (Inr False, [EGet ''default'' ''v1''])"
    by (rule sample_check) (simp add: getsFailing_def)
  have "waitForCertificateRequestReady ?WF ''v1'' ''default'' (Second * 30)
          [EGet ''default'' ''v1'', ESign csr ''sk'', ECreate ''default'' cr] =
        ((Some (sampleCR ''ca-issuer'' [failedCond]),
          Some (New (''certificate request marked as failed: '' @ ''denied by policy''))),
         [EGet ''default'' ''v1'', ESign csr ''sk'', ECreate ''default'' cr]
           @ replicate (Suc 2) (EGet ''default'' ''v1''))"
    by (rule wait_failed)
       (simp_all add: notYetReady_def sample_pollAnswer getsFailing_def sample_conditions)
  then have wF: "snd (fst (waitForCertificateRequestReady ?WF (ID sampleVol) ''default'' (Second * 30)
          [EGet ''default'' ''v1'', ESign csr ''sk'', ECreate ''default'' cr])) =
        Some (New ''certificate request marked as failed: denied by policy'')"
    by (simp add: sample_ns)
  have F: "fst (CreateNewCertificate sampleKeys sampleLib ?WF sampleVol sampleKey []) =
     Inl (New ''certificate request marked as failed: denied by policy'') \<and>
   written (snd (CreateNewCertificate sampleKeys sampleLib ?WF sampleVol sampleKey [])) = []"
    using T [where W = ?WF, THEN conjunct2, THEN conjunct2, THEN conjunct1, rule_format,
        of False "[EGet ''default'' ''v1'']"
           "[EGet ''default'' ''v1'', ESign csr ''sk'', ECreate ''default'' cr]"
           "New ''certificate request marked as failed: denied by policy''"]
      cF nF wF
    by (simp add: written_def)
  from B F show ?thesis by simp
qed

lemma check_no_sign:
  "signed (snd (checkExistingCertificateRequest K L W vol h)) = signed h \<and>
   created (snd (checkExistingCertificateRequest K L W vol h)) = created h"
  by (simp add: check_cases Let_def trace_simps split: sum.splits option.splits)

text \<open>
  C10.  When the DNS-names attribute is absent or empty, every signing request the
  issuance call builds has the DNS-names list with the empty string as its one element;
  and whenever the call creates an object at the authority it has built such a request.
\<close>

theorem empty_dns_names:
  assumes "Attributes vol (DNSNamesKey K) = None \<or> Attributes vol (DNSNamesKey K) = Some []"
    and t: "t = snd (CreateNewCertificate K L W vol kb h)"
  shows "\<exists>cs. signed t = signed h @ cs \<and> (\<forall>csr \<in> set cs. DNSNames csr = [[]]) \<and>
              (created t \<noteq> created h \<longrightarrow> cs \<noteq> [])"
proof -
  from assms(1) have "lookup (Attributes vol) (DNSNamesKey K) = []"
    by (auto simp: lookup_def)
  then have dns: "Split (lookup (Attributes vol) (DNSNamesKey K)) '','' = [[]]"
    by (simp add: Split_def)
  obtain r1 h1 where c: "checkExistingCertificateRequest K L W vol h = (r1, h1)"
    by (cases "checkExistingCertificateRequest K L W vol h") auto
  with check_no_sign [of K L W vol h]
  have 1: "signed h1 = signed h" "created h1 = created h" by simp_all
  show ?thesis
  proof (cases r1)
    case (Inl err)
    with c t 1 show ?thesis by (simp add: CreateNewCertificate_def)
  next
    case (Inr ok)
    obtain r2 h2 where
      n: "(if \<not> ok then newCertificateRequest K L W vol kb h1 else (None, h1)) = (r2, h2)"
      by (cases "if \<not> ok then newCertificateRequest K L W vol kb h1 else (None, h1)") auto
    have 2: "\<exists>cs. signed h2 = signed h @ cs \<and> (\<forall>csr \<in> set cs. DNSNames csr = [[]]) \<and>
              (created h2 \<noteq> created h \<longrightarrow> cs \<noteq> [])"
    proof (cases ok)
      case True
      with n 1 show ?thesis by simp
    next
      case False
      with n have "h2 = snd (newCertificateRequest K L W vol kb h1)" by auto
      with new_trace [of K L W vol kb h1] dns 1 show ?thesis
        by (auto simp: trace_simps)
    qed
    have "signed t = signed h2 \<and> created t = created h2"
    proof (cases r2)
      case (Some err)
      with c Inr n t show ?thesis by (simp add: CreateNewCertificate_def)
    next
      case None
      with c Inr n have c': "checkExistingCertificateRequest K L W vol h = (Inr ok, h1)"
        and n': "(if \<not> ok then newCertificateRequest K L W vol kb h1 else (None, h1)) = (None, h2)"
        by simp_all
      from finish_trace [OF c' n' refl] t show ?thesis by simp
    qed
    with 2 show ?thesis by simp
  qed
qed

lemma sample_issue:
  assumes "gets 0 = Inl notFound"
  shows "\<exists>csr cr.
     signed (snd (CreateNewCertificate sampleKeys sampleLib (sampleWorld gets m u)
        sampleVol sampleKey [])) = [csr] \<and>
     created (snd (CreateNewCertificate sampleKeys sampleLib (sampleWorld gets m u)
        sampleVol sampleKey [])) = [cr] \<and>
     DNSNames csr = [[]] \<and>
     map (\<lambda>r. (Kind r, Owner_Name r, UID r)) (OwnerReferences (Meta cr)) =
       [(''Pod'', ''default'', ''uid-1'')]"
proof -
  let ?W = "sampleWorld gets m u"
  from sample_new_props [of gets m u] obtain csr cr where
    n: "newCertificateRequest sampleKeys sampleLib ?W sampleVol sampleKey [EGet ''default'' ''v1''] =
     (None, [EGet ''default'' ''v1'', ESign csr ''sk'', ECreate ''default'' cr])"
    and p: "DNSNames csr = [[]]"
      "map (\<lambda>r. (Kind r, Owner_Name r, UID r)) (OwnerReferences (Meta cr)) =
         [(''Pod'', ''default'', ''uid-1'')]"
    by (elim exE conjE)
  have c: "checkExistingCertificateRequest sampleKeys sampleLib ?W sampleVol [] =
     (Inr False, [EGet ''default'' ''v1''])"
    using assms by (rule sample_check)
  from n have n': "(if \<not> False
      then newCertificateRequest sampleKeys sampleLib ?W sampleVol sampleKey [EGet ''default'' ''v1'']
      else (None, [EGet ''default'' ''v1''])) =
     (None, [EGet ''default'' ''v1'', ESign csr ''sk'', ECreate ''default'' cr])"
    by simp
  from finish_trace [OF c n' refl] p show ?thesis by simp
qed

theorem empty_dns_names_witness:
  "Attributes sampleVol (DNSNamesKey sampleKeys) = None \<and>
   map DNSNames (signed (snd (CreateNewCertificate sampleKeys sampleLib
      (sampleWorld getsReady False None) sampleVol sampleKey []))) = [[ [] ]]"
proof -
  let ?t = "snd (CreateNewCertificate sampleKeys sampleLib
      (sampleWorld getsReady False None) sampleVol sampleKey [])"
  have a: "Attributes sampleVol (DNSNamesKey sampleKeys) = None"
    by (simp add: sampleVol_def sampleAttrs_def sampleKeys_def)
  from sample_issue [of getsReady False None] obtain csr where l: "signed ?t = [csr]"
    by (auto simp: getsReady_def)
  from empty_dns_names [OF disjI1 [OF a] refl, of sampleLib "sampleWorld getsReady False None"
      sampleKey "[]"] l
  have "DNSNames csr = [[]]" by auto
  with a l show ?thesis by simp
qed

text \<open>
  C4, evaluated.  For the volume of pod \<open>my-pod\<close> in namespace \<open>default\<close> with UID
  \<open>uid-1\<close>, the object created carries one owner reference, of kind \<open>Pod\<close> and with the
  pod's UID; its name is \<open>default\<close>, the namespace, where the pod's name is \<open>my-pod\<close>.
\<close>

theorem owner_reference_names_namespace:
  "lookup (Attributes sampleVol) (CSIPodNameKey sampleKeys) = ''my-pod'' \<and>
   lookup (Attributes sampleVol) (CSIPodNamespaceKey sampleKeys) = ''default'' \<and>
   lookup (Attributes sampleVol) (CSIPodUIDKey sampleKeys) = ''uid-1'' \<and>
   map (\<lambda>cr. map (\<lambda>r. (Kind r, Owner_Name r, UID r)) (OwnerReferences (Meta cr)))
     (created (snd (CreateNewCertificate sampleKeys sampleLib
        (sampleWorld getsReady False None) sampleVol sampleKey []))) =
     [[(''Pod'', ''default'', ''uid-1'')]]"
  using sample_issue [of getsReady False None]
  by (auto simp: getsReady_def sampleVol_def sample_lookups)

section \<open>The match-or-replace step of the issuance engine\<close>

lemma new_built:
  assumes "util_ParseURIs L (lookup (Attributes vol) (URISANsKey K)) = Inr uris"
    and "\<forall>durStr. Attributes vol (DurationKey K) = Some durStr \<longrightarrow>
           (\<exists>d. time_ParseDuration L durStr = Inr d)"
    and "\<forall>csr. \<exists>der. Sign_answer W h csr (PrivateKey kb) = Inr der"
  shows "\<exists>csr cr. snd (newCertificateRequest K L W vol kb h) =
        h @ [ESign csr (PrivateKey kb), ECreate (lookup (Attributes vol) (CSIPodNamespaceKey K)) cr] \<and>
      Meta_Name (Meta cr) = ID vol \<and>
      Namespace (Meta cr) = lookup (Attributes vol) (CSIPodNamespaceKey K)"
proof -
  have "\<exists>d. (case Attributes vol (DurationKey K) of
                  None \<Rightarrow> Inr (cmapi_DefaultCertificateDuration L)
                | Some durStr \<Rightarrow> time_ParseDuration L durStr) = Inr d"
    using assms(2) by (cases "Attributes vol (DurationKey K)") auto
  then obtain d where
    d: "(case Attributes vol (DurationKey K) of
                  None \<Rightarrow> Inr (cmapi_DefaultCertificateDuration L)
                | Some durStr \<Rightarrow> time_ParseDuration L durStr) = Inr d" by blast
  have s: "\<And>csr. \<exists>der. Sign_answer W h csr (PrivateKey kb) = Inr der"
    using assms(3) by blast
  show ?thesis
    using s
    apply (simp add: newCertificateRequest_def Let_def assms(1) d EncodeCSR_def
        x509_CreateCertificateRequest_def cmClient_Create_def split: sum.splits)
    apply (metis sum.distinct(1))
    done
qed

lemma new_parse_fails:
  "util_ParseURIs L (lookup (Attributes vol) (URISANsKey K)) = Inl err \<Longrightarrow>
     newCertificateRequest K L W vol kb h = (Some err, h)"
  by (simp add: newCertificateRequest_def Let_def)

lemma new_duration_fails:
  "util_ParseURIs L (lookup (Attributes vol) (URISANsKey K)) = Inr uris \<Longrightarrow>
   Attributes vol (DurationKey K) = Some durStr \<Longrightarrow> time_ParseDuration L durStr = Inl err \<Longrightarrow>
     newCertificateRequest K L W vol kb h = (Some err, h)"
  by (simp add: newCertificateRequest_def Let_def)

lemma CN_created:
  "created (snd (CreateNewCertificate K L W vol kb h)) = created h \<or>
   (\<exists>cr. created (snd (CreateNewCertificate K L W vol kb h)) = created h @ [cr] \<and>
         Meta_Name (Meta cr) = ID vol \<and>
         Namespace (Meta cr) = lookup (Attributes vol) (CSIPodNamespaceKey K))"
proof -
  let ?t = "snd (CreateNewCertificate K L W vol kb h)"
  obtain r1 h1 where c: "checkExistingCertificateRequest K L W vol h = (r1, h1)"
    by (cases "checkExistingCertificateRequest K L W vol h") auto
  with check_no_sign [of K L W vol h] have 1: "created h1 = created h" by simp
  show ?thesis
  proof (cases r1)
    case (Inl err)
    with c 1 show ?thesis by (simp add: CreateNewCertificate_def)
  next
    case (Inr ok)
    obtain r2 h2 where
      n: "(if \<not> ok then newCertificateRequest K L W vol kb h1 else (None, h1)) = (r2, h2)"
      by (cases "if \<not> ok then newCertificateRequest K L W vol kb h1 else (None, h1)") auto
    have 2: "created h2 = created h \<or>
       (\<exists>cr. created h2 = created h @ [cr] \<and> Meta_Name (Meta cr) = ID vol \<and>
         Namespace (Meta cr) = lookup (Attributes vol) (CSIPodNamespaceKey K))"
    proof (cases ok)
      case True
      with n 1 show ?thesis by simp
    next
      case False
      with n have "h2 = snd (newCertificateRequest K L W vol kb h1)" by auto
      with new_trace [of K L W vol kb h1] 1 show ?thesis
        by (auto simp: trace_simps)
    qed
    have "created ?t = created h2"
    proof (cases r2)
      case (Some err)
      with c Inr n show ?thesis by (simp add: CreateNewCertificate_def)
    next
      case None
      with c Inr n have c': "checkExistingCertificateRequest K L W vol h = (Inr ok, h1)"
        and n': "(if \<not> ok then newCertificateRequest K L W vol kb h1 else (None, h1)) = (None, h2)"
        by simp_all
      from finish_trace [OF c' n' refl] show ?thesis by simp
    qed
    with 2 show ?thesis by simp
  qed
qed

text \<open>
  C6, amended.  An issuance call does one of three things at the authority.  An object
  under the volume's id that matches the volume's attributes: it creates and deletes
  nothing and goes on to use that object.  An object that does not match: it deletes it
  before anything else; a failed delete ends the call with that error and nothing
  created.  No object, or the stale one deleted: the call goes on to build a new one.
  If the URI names and the duration parse and signing succeeds, it creates the new
  object, named by the id in the pod's namespace, after the delete if there was one.
  If the URI names or the duration do not parse, the call returns that error and
  creates nothing.  In every case at most one object is created by a call, only when
  the check found no object or has deleted the one it found, and a found object that
  does not match is never used.
\<close>

theorem match_or_replace:
  assumes ns: "ns = lookup (Attributes vol) (CSIPodNamespaceKey K)"
    and t: "t = snd (CreateNewCertificate K L W vol kb h)"
  shows
  "(\<forall>err. Get_answer W h ns (ID vol) = Inl err \<and> IsNotFound err \<longrightarrow>
      checkExistingCertificateRequest K L W vol h = (Inr False, h @ [EGet ns (ID vol)]) \<and>
      deleted t = deleted h) \<and>
   (\<forall>cr. Get_answer W h ns (ID vol) = Inr cr \<and>
        util_CertificateRequestMatchesSpec L cr (Attributes vol) = None \<longrightarrow>
      prefix (h @ [EGet ns (ID vol)]) t \<and> created t = created h \<and> deleted t = deleted h) \<and>
   (\<forall>cr e. Get_answer W h ns (ID vol) = Inr cr \<and>
        util_CertificateRequestMatchesSpec L cr (Attributes vol) = Some e \<longrightarrow>
      prefix (h @ [EGet ns (ID vol), EDelete ns (ID vol)]) t \<and>
      deleted t = deleted h @ [(ns, ID vol)] \<and>
      (Delete_answer W (h @ [EGet ns (ID vol)]) ns (ID vol) = None \<longrightarrow>
         checkExistingCertificateRequest K L W vol h =
           (Inr False, h @ [EGet ns (ID vol), EDelete ns (ID vol)])) \<and>
      (\<forall>err. Delete_answer W (h @ [EGet ns (ID vol)]) ns (ID vol) = Some err \<longrightarrow>
         CreateNewCertificate K L W vol kb h =
           (Inl err, h @ [EGet ns (ID vol), EDelete ns (ID vol)]) \<and>
         created t = created h)) \<and>
   (\<forall>h1. checkExistingCertificateRequest K L W vol h = (Inr False, h1) \<longrightarrow>
      (\<forall>uris. util_ParseURIs L (lookup (Attributes vol) (URISANsKey K)) = Inr uris \<and>
          (\<forall>durStr. Attributes vol (DurationKey K) = Some durStr \<longrightarrow>
             (\<exists>d. time_ParseDuration L durStr = Inr d)) \<and>
          (\<forall>csr. \<exists>der. Sign_answer W h1 csr (PrivateKey kb) = Inr der) \<longrightarrow>
         (\<exists>csr cr. prefix (h1 @ [ESign csr (PrivateKey kb), ECreate ns cr]) t \<and>
            created t = created h @ [cr] \<and> Meta_Name (Meta cr) = ID vol \<and>
            Namespace (Meta cr) = ns)) \<and>
      (\<forall>err. util_ParseURIs L (lookup (Attributes vol) (URISANsKey K)) = Inl err \<longrightarrow>
         CreateNewCertificate K L W vol kb h = (Inl err, h1) \<and> created t = created h) \<and>
      (\<forall>uris durStr err.
          util_ParseURIs L (lookup (Attributes vol) (URISANsKey K)) = Inr uris \<and>
          Attributes vol (DurationKey K) = Some durStr \<and>
          time_ParseDuration L durStr = Inl err \<longrightarrow>
         CreateNewCertificate K L W vol kb h = (Inl err, h1) \<and> created t = created h)) \<and>
   (created t = created h \<or>
    (\<exists>cr. created t = created h @ [cr] \<and> Meta_Name (Meta cr) = ID vol \<and>
          Namespace (Meta cr) = ns)) \<and>
   (created t \<noteq> created h \<longrightarrow>
      (\<exists>h1. checkExistingCertificateRequest K L W vol h = (Inr False, h1)))"
proof (intro conjI allI impI)
  fix err
  assume a: "Get_answer W h ns (ID vol) = Inl err \<and> IsNotFound err"
  then show c: "checkExistingCertificateRequest K L W vol h = (Inr False, h @ [EGet ns (ID vol)])"
    using ns by (simp add: check_cases Let_def)
  obtain r2 h2 where n: "newCertificateRequest K L W vol kb (h @ [EGet ns (ID vol)]) = (r2, h2)"
    by (cases "newCertificateRequest K L W vol kb (h @ [EGet ns (ID vol)])") auto
  with new_no_write [of K L W vol kb "h @ [EGet ns (ID vol)]"]
  have d2: "deleted h2 = deleted h" by (simp add: trace_simps)
  show "deleted t = deleted h"
  proof (cases r2)
    case (Some e)
    with c n t d2 show ?thesis by (simp add: CreateNewCertificate_def)
  next
    case None
    with n have "(if \<not> False then newCertificateRequest K L W vol kb (h @ [EGet ns (ID vol)])
        else (None, h @ [EGet ns (ID vol)])) = (None, h2)" by simp
    from finish_trace [OF c this ns] t d2 show ?thesis by simp
  qed
next
  fix cr
  assume "Get_answer W h ns (ID vol) = Inr cr \<and>
      util_CertificateRequestMatchesSpec L cr (Attributes vol) = None"
  then have "checkExistingCertificateRequest K L W vol h = (Inr True, h @ [EGet ns (ID vol)])"
    using ns by (simp add: check_cases Let_def)
  from finish_trace [OF this _ ns, of kb "h @ [EGet ns (ID vol)]"] t
  show "prefix (h @ [EGet ns (ID vol)]) t" "created t = created h" "deleted t = deleted h"
    by (simp_all add: trace_simps)
next
  fix cr e
  assume a: "Get_answer W h ns (ID vol) = Inr cr \<and>
      util_CertificateRequestMatchesSpec L cr (Attributes vol) = Some e"
  let ?h1 = "h @ [EGet ns (ID vol), EDelete ns (ID vol)]"
  show okc: "checkExistingCertificateRequest K L W vol h = (Inr False, ?h1)"
    if "Delete_answer W (h @ [EGet ns (ID vol)]) ns (ID vol) = None"
    using that a ns by (simp add: check_cases Let_def)
  show bad: "CreateNewCertificate K L W vol kb h = (Inl err, ?h1)"
    if "Delete_answer W (h @ [EGet ns (ID vol)]) ns (ID vol) = Some err" for err
  proof -
    from that a ns have "checkExistingCertificateRequest K L W vol h = (Inl err, ?h1)"
      by (simp add: check_cases Let_def)
    then show ?thesis by (simp add: CreateNewCertificate_def)
  qed
  show "created t = created h"
    if "Delete_answer W (h @ [EGet ns (ID vol)]) ns (ID vol) = Some err" for err
    using bad [OF that] t by (simp add: trace_simps)
  have "prefix ?h1 t \<and> deleted t = deleted h @ [(ns, ID vol)]"
  proof (cases "Delete_answer W (h @ [EGet ns (ID vol)]) ns (ID vol)")
    case (Some err)
    from bad [OF this] t show ?thesis by (simp add: trace_simps)
  next
    case None
    note c = okc [OF None]
    obtain r2 h2 where n: "newCertificateRequest K L W vol kb ?h1 = (r2, h2)"
      by (cases "newCertificateRequest K L W vol kb ?h1") auto
    with new_no_write [of K L W vol kb ?h1]
    have 2: "deleted h2 = deleted h @ [(ns, ID vol)]" "prefix ?h1 h2"
      by (simp_all add: trace_simps)
    show ?thesis
    proof (cases r2)
      case (Some e)
      with c n t 2 show ?thesis by (simp add: CreateNewCertificate_def)
    next
      case None
      with n have "(if \<not> False then newCertificateRequest K L W vol kb ?h1
          else (None, ?h1)) = (None, h2)" by simp
      from finish_trace [OF c this ns] t 2 show ?thesis
        by (auto intro: prefix_order.trans)
    qed
  qed
  then show "prefix ?h1 t" "deleted t = deleted h @ [(ns, ID vol)]" by simp_all
next
  fix h1 uris
  assume c: "checkExistingCertificateRequest K L W vol h = (Inr False, h1)"
    and b: "util_ParseURIs L (lookup (Attributes vol) (URISANsKey K)) = Inr uris \<and>
          (\<forall>durStr. Attributes vol (DurationKey K) = Some durStr \<longrightarrow>
             (\<exists>d. time_ParseDuration L durStr = Inr d)) \<and>
          (\<forall>csr. \<exists>der. Sign_answer W h1 csr (PrivateKey kb) = Inr der)"
  from b have b1: "util_ParseURIs L (lookup (Attributes vol) (URISANsKey K)) = Inr uris"
    and b2: "\<forall>durStr. Attributes vol (DurationKey K) = Some durStr \<longrightarrow>
             (\<exists>d. time_ParseDuration L durStr = Inr d)"
    and b3: "\<forall>csr. \<exists>der. Sign_answer W h1 csr (PrivateKey kb) = Inr der"
    by simp_all
  from check_no_sign [of K L W vol h] c have c1: "created h1 = created h" by simp
  from new_built [OF b1 b2 b3] ns obtain csr cr where
    n: "snd (newCertificateRequest K L W vol kb h1) =
          h1 @ [ESign csr (PrivateKey kb), ECreate ns cr]"
    and m: "Meta_Name (Meta cr) = ID vol" "Namespace (Meta cr) = ns"
    by blast
  obtain r h2 where r: "newCertificateRequest K L W vol kb h1 = (r, h2)"
    by (cases "newCertificateRequest K L W vol kb h1") auto
  with n have h2: "h2 = h1 @ [ESign csr (PrivateKey kb), ECreate ns cr]" by simp
  have "prefix h2 t \<and> created t = created h2"
  proof (cases r)
    case None
    with finish_trace [OF c _ ns, of kb h2] r t show ?thesis by simp
  next
    case (Some err)
    with c r t show ?thesis by (simp add: CreateNewCertificate_def)
  qed
  with h2 m c1
  show "\<exists>csr cr. prefix (h1 @ [ESign csr (PrivateKey kb), ECreate ns cr]) t \<and>
            created t = created h @ [cr] \<and> Meta_Name (Meta cr) = ID vol \<and>
            Namespace (Meta cr) = ns"
    by (auto simp: trace_simps)
next
  fix h1 err
  assume c: "checkExistingCertificateRequest K L W vol h = (Inr False, h1)"
    and "util_ParseURIs L (lookup (Attributes vol) (URISANsKey K)) = Inl err"
  then have "newCertificateRequest K L W vol kb h1 = (Some err, h1)"
    by (simp add: new_parse_fails)
  with c show e: "CreateNewCertificate K L W vol kb h = (Inl err, h1)"
    by (simp add: CreateNewCertificate_def)
  from check_no_sign [of K L W vol h] c e t show "created t = created h" by simp
next
  fix h1 uris durStr err
  assume c: "checkExistingCertificateRequest K L W vol h = (Inr False, h1)"
    and "util_ParseURIs L (lookup (Attributes vol) (URISANsKey K)) = Inr uris \<and>
          Attributes vol (DurationKey K) = Some durStr \<and>
          time_ParseDuration L durStr = Inl err"
  then have "newCertificateRequest K L W vol kb h1 = (Some err, h1)"
    by (simp add: new_duration_fails)
  with c show e: "CreateNewCertificate K L W vol kb h = (Inl err, h1)"
    by (simp add: CreateNewCertificate_def)
  from check_no_sign [of K L W vol h] c e t show "created t = created h" by simp
next
  from CN_created [of K L W vol kb h] t ns
  show "created t = created h \<or>
    (\<exists>cr. created t = created h @ [cr] \<and> Meta_Name (Meta cr) = ID vol \<and>
          Namespace (Meta cr) = ns)"
    by simp
next
  assume d: "created t \<noteq> created h"
  obtain r1 h1 where c: "checkExistingCertificateRequest K L W vol h = (r1, h1)"
    by (cases "checkExistingCertificateRequest K L W vol h") auto
  with check_no_sign [of K L W vol h] have 1: "created h1 = created h" by simp
  show "\<exists>h1. checkExistingCertificateRequest K L W vol h = (Inr False, h1)"
  proof (cases r1)
    case (Inl err)
    with c t 1 d show ?thesis by (simp add: CreateNewCertificate_def)
  next
    case (Inr ok)
    show ?thesis
    proof (cases ok)
      case True
      with c Inr have "checkExistingCertificateRequest K L W vol h = (Inr True, h1)" by simp
      from finish_trace [OF this _ ns, of kb h1] t 1 d show ?thesis by simp
    next
      case False
      with c Inr show ?thesis by simp
    qed
  qed
qed

lemma badURI_lookups:
  "lookup (Attributes badURIVol) (URISANsKey sampleKeys) = ''%zz''"
  "lookup (Attributes badURIVol) (CSIPodNamespaceKey sampleKeys) = ''default''"
  "ID badURIVol = ''v1''"
  "util_ParseURIs sampleLib ''%zz'' = Inl (New ''invalid URL escape %zz'')"
  "util_CertificateRequestMatchesSpec sampleLib (sampleCR ''old-issuer'' c) (Attributes badURIVol)
     = Some (New ''issuer name does not match'')"
  by (simp_all add: badURIVol_def sampleVol_def sampleAttrs_def sampleKeys_def lookup_def
      sampleLib_def sampleCR_def)

text \<open>
  C6 as stated fails.  The volume's URI names are \<open>%zz\<close>, which passes attribute
  validation and does not parse.  With no object at the authority the call returns the
  parse error after its one \<open>Get\<close> and creates nothing; with an object of another issuer
  it deletes that object, returns the parse error, and creates nothing in its place.
\<close>

theorem match_or_replace_counterexample:
  "ValidateAttributes sampleKeys (time_ParseDuration sampleLib) (Attributes badURIVol) = None \<and>
   Get_answer (sampleWorld getsReady False None) [] ''default'' ''v1'' = Inl notFound \<and>
   CreateNewCertificate sampleKeys sampleLib (sampleWorld getsReady False None)
     badURIVol sampleKey [] =
     (Inl (New ''invalid URL escape %zz''), [EGet ''default'' ''v1'']) \<and>
   Get_answer (sampleWorld getsStale False None) [] ''default'' ''v1'' =
     Inr (sampleCR ''old-issuer'' [readyCond]) \<and>
   util_CertificateRequestMatchesSpec sampleLib (sampleCR ''old-issuer'' [readyCond])
     (Attributes badURIVol) = Some (New ''issuer name does not match'') \<and>
   CreateNewCertificate sampleKeys sampleLib (sampleWorld getsStale False None)
     badURIVol sampleKey [] =
     (Inl (New ''invalid URL escape %zz''),
      [EGet ''default'' ''v1'', EDelete ''default'' ''v1''])"
proof -
  have v: "ValidateAttributes sampleKeys (time_ParseDuration sampleLib) (Attributes badURIVol) = None"
    by (simp add: ValidateAttributes_def Let_def lookup_def badURIVol_def sampleVol_def
        sampleAttrs_def sampleKeys_def boolValue_def durationParse_def filepathBreakout_def)
  have g: "Get_answer (sampleWorld getsReady False None) [] ''default'' ''v1'' = Inl notFound"
    "Get_answer (sampleWorld getsStale False None) [] ''default'' ''v1'' =
       Inr (sampleCR ''old-issuer'' [readyCond])"
    by (simp_all add: sample_Get getsReady_def getsStale_def)
  have c1: "checkExistingCertificateRequest sampleKeys sampleLib
      (sampleWorld getsReady False None) badURIVol [] = (Inr False, [EGet ''default'' ''v1''])"
    by (simp add: check_cases Let_def badURI_lookups sample_Get getsReady_def notFound_def)
  have c2: "checkExistingCertificateRequest sampleKeys sampleLib
      (sampleWorld getsStale False None) badURIVol [] =
      (Inr False, [EGet ''default'' ''v1'', EDelete ''default'' ''v1''])"
    by (simp add: check_cases Let_def badURI_lookups sample_Get getsStale_def)
  have n: "newCertificateRequest sampleKeys sampleLib W badURIVol sampleKey h =
      (Some (New ''invalid URL escape %zz''), h)" for W h
    by (rule new_parse_fails) (simp add: badURI_lookups)
  have r1: "CreateNewCertificate sampleKeys sampleLib (sampleWorld getsReady False None)
      badURIVol sampleKey [] = (Inl (New ''invalid URL escape %zz''), [EGet ''default'' ''v1''])"
    by (simp add: CreateNewCertificate_def c1 n)
  have r2: "CreateNewCertificate sampleKeys sampleLib (sampleWorld getsStale False None)
      badURIVol sampleKey [] =
      (Inl (New ''invalid URL escape %zz''),
       [EGet ''default'' ''v1'', EDelete ''default'' ''v1''])"
    by (simp add: CreateNewCertificate_def c2 n)
  from v g r1 r2 badURI_lookups(5) show ?thesis by simp
qed

theorem match_or_replace_witness:
  "length (created (snd (CreateNewCertificate sampleKeys sampleLib
      (sampleWorld getsReady False None) sampleVol sampleKey []))) = 1 \<and>
   deleted (snd (CreateNewCertificate sampleKeys sampleLib
      (sampleWorld getsReady False None) sampleVol sampleKey [])) = [] \<and>
   created (snd (CreateNewCertificate sampleKeys sampleLib
      (sampleWorld getsMatching False None) sampleVol sampleKey [])) = [] \<and>
   deleted (snd (CreateNewCertificate sampleKeys sampleLib
      (sampleWorld getsMatching False None) sampleVol sampleKey [])) = [] \<and>
   length (created (snd (CreateNewCertificate sampleKeys sampleLib
      (sampleWorld getsStale False None) sampleVol sampleKey []))) = 1 \<and>
   deleted (snd (CreateNewCertificate sampleKeys sampleLib
      (sampleWorld getsStale False None) sampleVol sampleKey [])) = [(''default'', ''v1'')] \<and>
   created (snd (CreateNewCertificate sampleKeys sampleLib
      (sampleWorld getsReady False None) badURIVol sampleKey [])) = []"
proof -
  note T = match_or_replace [where K = sampleKeys and L = sampleLib and kb = sampleKey
      and h = "[]" and vol = sampleVol, OF sample_ns(1) refl]
  let ?tA = "snd (CreateNewCertificate sampleKeys sampleLib
      (sampleWorld getsReady False None) sampleVol sampleKey [])"
  let ?tC = "snd (CreateNewCertificate sampleKeys sampleLib
      (sampleWorld getsStale False None) sampleVol sampleKey [])"
  have built: "util_ParseURIs sampleLib (lookup (Attributes sampleVol) (URISANsKey sampleKeys))
        = Inr [] \<and>
      (\<forall>durStr. Attributes sampleVol (DurationKey sampleKeys) = Some durStr \<longrightarrow>
         (\<exists>d. time_ParseDuration sampleLib durStr = Inr d)) \<and>
      (\<forall>csr. \<exists>der. Sign_answer (sampleWorld gets m u) h1 csr (PrivateKey sampleKey) = Inr der)"
    for gets m u h1
    using sample_built(2) sample_built(3) [of gets m u]
    by (simp add: sampleLib_def sampleVol_def sample_lookups)
  have A1: "checkExistingCertificateRequest sampleKeys sampleLib
        (sampleWorld getsReady False None) sampleVol [] =
        (Inr False, [] @ [EGet ''default'' (ID sampleVol)]) \<and> deleted ?tA = deleted []"
    using T [where W = "sampleWorld getsReady False None", THEN conjunct1, rule_format, of notFound]
    by (simp add: sample_Get sample_ns getsReady_def notFound_def)
  from T [where W = "sampleWorld getsReady False None", THEN conjunct2, THEN conjunct2,
      THEN conjunct2, THEN conjunct1, rule_format, OF conjunct1 [OF A1], THEN conjunct1,
      rule_format, OF built]
  obtain crA where "created ?tA = created [] @ [crA]" by blast
  with A1 have A: "length (created ?tA) = 1 \<and> deleted ?tA = []" by simp
  have B: "created (snd (CreateNewCertificate sampleKeys sampleLib
      (sampleWorld getsMatching False None) sampleVol sampleKey [])) = [] \<and>
   deleted (snd (CreateNewCertificate sampleKeys sampleLib
      (sampleWorld getsMatching False None) sampleVol sampleKey [])) = []"
    using T [where W = "sampleWorld getsMatching False None", THEN conjunct2, THEN conjunct1,
        rule_format, of "sampleCR ''ca-issuer'' [readyCond]"]
    by (simp add: sample_Get sample_ns getsMatching_def sample_matches)
  have C1: "deleted ?tC = deleted [] @ [(''default'', ID sampleVol)] \<and>
      checkExistingCertificateRequest sampleKeys sampleLib
        (sampleWorld getsStale False None) sampleVol [] =
        (Inr False, [] @ [EGet ''default'' (ID sampleVol), EDelete ''default'' (ID sampleVol)])"
    using T [where W = "sampleWorld getsStale False None", THEN conjunct2, THEN conjunct2,
        THEN conjunct1, rule_format,
        of "sampleCR ''old-issuer'' [readyCond]" "New ''issuer name does not match''"]
    by (simp add: sample_Get sample_ns getsStale_def sample_matches)
  from T [where W = "sampleWorld getsStale False None", THEN conjunct2, THEN conjunct2,
      THEN conjunct2, THEN conjunct1, rule_format, OF conjunct2 [OF C1], THEN conjunct1,
      rule_format, OF built]
  obtain crC where "created ?tC = created [] @ [crC]" by blast
  with C1 have C: "length (created ?tC) = 1 \<and> deleted ?tC = [(''default'', ''v1'')]"
    by (simp add: sample_ns)
  have nsD: "''default'' = lookup (Attributes badURIVol) (CSIPodNamespaceKey sampleKeys)"
    by (simp add: badURI_lookups)
  note TD = match_or_replace [where K = sampleKeys and L = sampleLib and kb = sampleKey
      and h = "[]" and vol = badURIVol and W = "sampleWorld getsReady False None",
      OF nsD refl]
  have D1: "checkExistingCertificateRequest sampleKeys sampleLib
        (sampleWorld getsReady False None) badURIVol [] =
        (Inr False, [] @ [EGet ''default'' (ID badURIVol)])"
    using TD [THEN conjunct1, rule_format, of notFound]
    by (simp add: sample_Get badURI_lookups getsReady_def notFound_def)
  have uD: "util_ParseURIs sampleLib (lookup (Attributes badURIVol) (URISANsKey sampleKeys)) =
      Inl (New ''invalid URL escape %zz'')"
    by (simp add: badURI_lookups)
  from TD [THEN conjunct2, THEN conjunct2, THEN conjunct2, THEN conjunct1, rule_format,
      OF D1, THEN conjunct2, THEN conjunct1, rule_format, OF uD]
  have D: "created (snd (CreateNewCertificate sampleKeys sampleLib
      (sampleWorld getsReady False None) badURIVol sampleKey [])) = []"
    by simp
  from A B C D show ?thesis by simp
qed

section \<open>Properties of the node server\<close>

lemmas call_defs = cmClient_Get_def cmClient_Create_def cmClient_Delete_def
  x509_CreateCertificateRequest_def ioutil_WriteFile_def util_WriteFile_def
  os_MkdirAll_def os_RemoveAll_def util_NewRSAKey_def util_WriteMetaDataFile_def
  util_ReadMetaDataFile_def util_IsLikelyMountPoint_def util_Mount_def util_Unmount_def
  renewer_WatchCert_def renewer_KillWatcher_def wh_Create_def wh_Destroy_def





















text \<open>
  C3, evaluated.  The request \<open>badReq\<close> is rejected before any call is made, with one
  error that lists the three rules it breaks; the error's class is \<open>Internal\<close>, not
  \<open>InvalidArgument\<close>.
\<close>

theorem capability_violation_is_internal:
  "NodePublishVolume sampleKeys sampleLib mountingWorld sampleNS badReq [] =
     ((None, Some (StatusError Internal
        ''publishing a non-ephemeral volume mount is not supported, block access type not supported, target path missing'')),
      [])"
  by (simp add: NodePublishVolume_def validateVolumeAttributes_def badReq_def Let_def
      lookup_def sampleAttrs_def sampleKeys_def GetBlock_def)

text \<open>
  C1 as stated fails.  Unmounting the target fails; the call returns neither a response
  nor an error, and after the unmount it makes no further call: no removal of the
  volume's directory, no destroy notification, although the metadata had been read.
\<close>

theorem unpublish_unmount_failure_counterexample:
  "Unmount_answer busyWorld
     [EReadMetaDataFile ''/csi-data-dir/v1/metadata.json'', EKillWatcher ''v1''] ''/target''
     = Some busy \<and>
   fst (ReadMetaDataFile_answer busyWorld [] ''/csi-data-dir/v1/metadata.json'') = Some sampleVol \<and>
   NodeUnpublishVolume sampleKeys sampleLib busyWorld sampleNS sampleUnpub [] =
     ((None, None),
      [EReadMetaDataFile ''/csi-data-dir/v1/metadata.json'', EKillWatcher ''v1'',
       EUnmount ''/target''])"
  by (simp add: NodeUnpublishVolume_def busyWorld_def sampleWorld_def sampleUnpub_def
      sampleNS_def sampleLib_def sampleKeys_def Let_def call_defs)

text \<open>
  C1, amended.  When unmounting the target fails, the unpublish call ends at the failed
  unmount.  The metadata read and the cancellation of the volume's watcher have been
  done before it; the removal of the volume's directory and the destroy notification
  are not attempted.
\<close>

theorem unpublish_stops_at_failed_unmount:
  assumes "Unpub_TargetPath req \<noteq> []" and "Unpub_VolumeId req \<noteq> []"
    and "metaPath = filepath_Join L [dataRoot ns, Unpub_VolumeId req, MetaDataFileName K]"
    and "Unmount_answer W (h @ [EReadMetaDataFile metaPath, EKillWatcher (Unpub_VolumeId req)])
           (Unpub_TargetPath req) = Some err"
  shows "snd (NodeUnpublishVolume K L W ns req h) =
           h @ [EReadMetaDataFile metaPath, EKillWatcher (Unpub_VolumeId req),
                EUnmount (Unpub_TargetPath req)] \<and>
         filter isRemoveAll (snd (NodeUnpublishVolume K L W ns req h)) = filter isRemoveAll h \<and>
         filter isWebhookDestroy (snd (NodeUnpublishVolume K L W ns req h)) =
           filter isWebhookDestroy h"
  using assms
  by (simp add: NodeUnpublishVolume_def Let_def call_defs split: prod.splits)

theorem unpublish_stops_at_failed_unmount_witness:
  "snd (NodeUnpublishVolume sampleKeys sampleLib busyWorld sampleNS sampleUnpub []) =
     [EReadMetaDataFile ''/csi-data-dir/v1/metadata.json'', EKillWatcher ''v1'',
      EUnmount ''/target''] \<and>
   filter isRemoveAll
     (snd (NodeUnpublishVolume sampleKeys sampleLib busyWorld sampleNS sampleUnpub [])) = [] \<and>
   filter isWebhookDestroy
     (snd (NodeUnpublishVolume sampleKeys sampleLib busyWorld sampleNS sampleUnpub [])) = []"
proof -
  have p: "''/csi-data-dir/v1/metadata.json'' =
      filepath_Join sampleLib [dataRoot sampleNS, Unpub_VolumeId sampleUnpub,
        MetaDataFileName sampleKeys]"
    by (simp add: sampleLib_def sampleNS_def sampleUnpub_def sampleKeys_def)
  have u: "Unmount_answer busyWorld
      ([] @ [EReadMetaDataFile ''/csi-data-dir/v1/metadata.json'',
             EKillWatcher (Unpub_VolumeId sampleUnpub)])
      (Unpub_TargetPath sampleUnpub) = Some busy"
    by (simp add: busyWorld_def sampleWorld_def)
  have a: "Unpub_TargetPath sampleUnpub \<noteq> []" "Unpub_VolumeId sampleUnpub \<noteq> []"
    by (simp_all add: sampleUnpub_def)
  from unpublish_stops_at_failed_unmount [OF a p u]
  show ?thesis by (simp add: sampleUnpub_def)
qed

end
